theory Spec2Isabelle
  imports Complex_Main
begin

section \<open>The two term algebras\<close>

subsection \<open>Types of the formula representation and native sorts\<close>

text \<open>
  The types of the solver-agnostic representation (\<^verbatim>\<open>pysmt.typing\<close>): the converter
  only asks a type which kind it is and reads its components.
\<close>

datatype ptype =
    BOOL
  | INT_TYPE
  | REAL
  | STRING
  | BVType nat
  | ArrayType ptype ptype
  | FunctionType ptype "ptype list"
  | CustomType string

text \<open>Native sorts, by the sort kinds that \<^verbatim>\<open>_z3_to_type\<close> distinguishes.\<close>

datatype z3_sort =
    Z3_BOOL_SORT
  | Z3_INT_SORT
  | Z3_REAL_SORT
  | Z3_ARRAY_SORT z3_sort z3_sort
  | Z3_BV_SORT nat
  | Z3_UNINTERPRETED_SORT string
  | Z3_UNKNOWN_SORT string

subsection \<open>Native terms\<close>

text \<open>
  The declaration kinds of the engine that the converter produces or dispatches on.
  \<^verbatim>\<open>Z3_OP_ANUM\<close>, \<^verbatim>\<open>Z3_OP_AGNUM\<close> and \<^verbatim>\<open>Z3_OP_BNUM\<close> are the kinds of numerals;
  \<^verbatim>\<open>Z3_OP_IDIV\<close>, \<^verbatim>\<open>Z3_OP_MOD\<close> and \<^verbatim>\<open>Z3_OP_DISTINCT\<close> are kinds the engine can
  return and the dispatch table of the converter does not list.
\<close>

datatype z3_kind =
    Z3_OP_TRUE | Z3_OP_FALSE | Z3_OP_EQ | Z3_OP_DISTINCT | Z3_OP_ITE | Z3_OP_AND | Z3_OP_OR
  | Z3_OP_IFF | Z3_OP_XOR | Z3_OP_NOT | Z3_OP_IMPLIES
  | Z3_OP_ANUM | Z3_OP_AGNUM | Z3_OP_LE | Z3_OP_GE | Z3_OP_LT | Z3_OP_GT
  | Z3_OP_ADD | Z3_OP_SUB | Z3_OP_UMINUS | Z3_OP_MUL | Z3_OP_DIV | Z3_OP_IDIV | Z3_OP_MOD
  | Z3_OP_TO_REAL | Z3_OP_POWER
  | Z3_OP_STORE | Z3_OP_SELECT | Z3_OP_CONST_ARRAY | Z3_OP_AS_ARRAY
  | Z3_OP_BNUM | Z3_OP_BNEG | Z3_OP_BADD | Z3_OP_BSUB | Z3_OP_BMUL
  | Z3_OP_BSDIV | Z3_OP_BUDIV | Z3_OP_BSREM | Z3_OP_BUREM
  | Z3_OP_ULEQ | Z3_OP_SLEQ | Z3_OP_UGEQ | Z3_OP_SGEQ
  | Z3_OP_ULT | Z3_OP_SLT | Z3_OP_UGT | Z3_OP_SGT
  | Z3_OP_BAND | Z3_OP_BOR | Z3_OP_BNOT | Z3_OP_BXOR
  | Z3_OP_CONCAT | Z3_OP_SIGN_EXT | Z3_OP_ZERO_EXT | Z3_OP_EXTRACT
  | Z3_OP_BSHL | Z3_OP_BLSHR | Z3_OP_BASHR
  | Z3_OP_ROTATE_LEFT | Z3_OP_ROTATE_RIGHT
  | Z3_OP_EXT_ROTATE_LEFT | Z3_OP_EXT_ROTATE_RIGHT
  | Z3_OP_BV2INT | Z3_OP_UNINTERPRETED

text \<open>
  A native term. The engine hash-conses its terms, and \<^verbatim>\<open>AstRefKey\<close> compares them with
  the engine's own \<^verbatim>\<open>eq\<close>, so the identity of a native term is its structure: equality
  of this datatype.
  \<^item> \<open>Z3App k name params sort args\<close>: an application; \<open>k\<close> is the kind of its
    declaration, \<open>name\<close> the declaration's name, \<open>params\<close> its integer parameters,
    \<open>sort\<close> the sort of the term.
  \<^item> \<open>Z3Num n d sort\<close>: the numeral \<open>n/d\<close> of an integer, real or bitvector sort.
  \<^item> \<open>Z3Alg name\<close>: an algebraic (irrational) real value.
  \<^item> \<open>Z3Quantifier forall bound body\<close>: a quantified term.
  \<^item> \<open>Z3FuncDecl name domain range\<close>: a function declaration, as \<^verbatim>\<open>walk_symbol\<close>
    returns it for a symbol of function type.
\<close>

datatype z3_ast =
    Z3App z3_kind string "int list" z3_sort "z3_ast list"
  | Z3Num int int z3_sort
  | Z3Alg string
  | Z3Quantifier bool "z3_ast list" z3_ast
  | Z3FuncDecl string "z3_sort list" z3_sort

subsection \<open>Formulas\<close>

text \<open>
  The operators of formula nodes (\<^verbatim>\<open>pysmt.operators\<close>): those the converter has a
  \<^verbatim>\<open>walk_\<close> method for, and \<open>XOR\<close>, \<open>GT\<close>, \<open>GE\<close>, \<open>BV_UGT\<close>, \<open>BV_UGE\<close>,
  \<open>BV_SGT\<close>, \<open>BV_SGE\<close>, which stand for the manager methods of these names that the
  backward converter calls.
\<close>

datatype node_op =
    AND | OR | NOT | IMPLIES | IFF | XOR | ITE | EQUALS
  | GT | GE | LT | LE
  | PLUS | MINUS | TIMES | DIV | POW | TOREAL
  | BV_AND | BV_OR | BV_XOR | BV_NOT | BV_NEG | BV_CONCAT | BV_EXTRACT
  | BV_ULT | BV_ULE | BV_SLT | BV_SLE | BV_UGT | BV_UGE | BV_SGT | BV_SGE
  | BV_ADD | BV_SUB | BV_MUL | BV_UDIV | BV_SDIV | BV_UREM | BV_SREM
  | BV_LSHL | BV_LSHR | BV_ASHR | BV_ROL | BV_ROR | BV_ZEXT | BV_SEXT
  | BV_COMP | BV_TONATURAL
  | ARRAY_SELECT | ARRAY_STORE

text \<open>
  A formula node, as the formula manager builds it. A call of a manager method is the
  node of that operator on the arguments of the call: the manager's own rewriting of
  what it is given is not part of the converter.
  \<^item> \<open>FNode op args payload\<close>: an operator node; \<open>payload\<close> holds the integer
    parameters that the node carries besides its arguments (rotation step, extension
    width, extraction bounds \<open>[start, end]\<close>).
  \<^item> \<open>FArray index_type default assign\<close>: an array value, \<open>assign\<close> its
    index-to-value mapping in insertion order.
  \<^item> \<open>FFunction f args\<close>: the application of the function symbol \<open>f\<close>.
\<close>

datatype fnode =
    FSymbol string ptype
  | FBool bool
  | FInt int
  | FReal rat
  | FBV int nat
  | FString string
  | FAlgebraic z3_ast
  | FNode node_op "fnode list" "int list"
  | FArray ptype fnode "(fnode \<times> fnode) list"
  | FFunction fnode "fnode list"
  | FQuantifier bool "fnode list" fnode

subsection \<open>Errors\<close>

text \<open>
  Every exception that the code raises is a value. \<^verbatim>\<open>ConvertExpressionError\<close> carries
  its message and its \<^verbatim>\<open>expression\<close> attribute.
\<close>

datatype conv_message =
    Unsupported_string_symbol
  | Could_not_convert
  | Unsupported_expression
  | Unable_to_represent_LIA

datatype conv_expression = Formula_expr fnode | Native_expr z3_ast

datatype error =
    ConvertExpressionError conv_message conv_expression
  | NotImplementedError
  | AssertionError
  | UndefinedSymbolError string
  | SolverReturnedUnknownResultError
  | SolverNotConfiguredForUnsatCoresError
  | SolverStatusError
  | PysmtValueError
  | PysmtTypeError
  | IndexError
  | KeyError
  | AttributeError
  | TypeError
  | Z3Exception
  | ZeroDivisionError

text \<open>Indexing an argument list: Python raises \<^verbatim>\<open>IndexError\<close> out of range.\<close>

definition arg :: "'a list \<Rightarrow> nat \<Rightarrow> error + 'a" where
  "arg xs i = (if i < length xs then Inr (xs ! i) else Inl IndexError)"

text \<open>The results of a list of computations, or the first error among them.\<close>

fun collect :: "(error + 'a) list \<Rightarrow> error + 'a list" where
  "collect [] = Inr []"
| "collect (Inl e # rs) = Inl e"
| "collect (Inr x # rs) = (case collect rs of Inl e \<Rightarrow> Inl e | Inr xs \<Rightarrow> Inr (x # xs))"

section \<open>The engine's term constructors\<close>

text \<open>
  The engine is an external collaborator: what follows records which term each
  constructor of its API returns (kind, parameters, sort, children). The engine's own
  sort checking of the arguments is not modelled.
\<close>

fun sort_of :: "z3_ast \<Rightarrow> z3_sort" where
  "sort_of (Z3App k name params s args) = s"
| "sort_of (Z3Num n d s) = s"
| "sort_of (Z3Alg name) = Z3_REAL_SORT"
| "sort_of (Z3Quantifier fa bound body) = Z3_BOOL_SORT"
| "sort_of (Z3FuncDecl name ds rng) = rng"

fun children :: "z3_ast \<Rightarrow> z3_ast list" where
  "children (Z3App k name params s args) = args"
| "children (Z3Quantifier fa bound body) = [body]"
| "children t = []"

definition first_sort :: "z3_ast list \<Rightarrow> z3_sort" where
  "first_sort args = (case args of [] \<Rightarrow> Z3_INT_SORT | a # _ \<Rightarrow> sort_of a)"

fun bv_size :: "z3_sort \<Rightarrow> nat" where
  "bv_size (Z3_BV_SORT w) = w"
| "bv_size s = 0"

fun array_range :: "z3_sort \<Rightarrow> z3_sort" where
  "array_range (Z3_ARRAY_SORT d r) = r"
| "array_range s = s"

definition Z3_mk_not :: "z3_ast \<Rightarrow> z3_ast" where
  "Z3_mk_not a = Z3App Z3_OP_NOT ''not'' [] Z3_BOOL_SORT [a]"

definition Z3_mk_and :: "z3_ast list \<Rightarrow> z3_ast" where
  "Z3_mk_and args = Z3App Z3_OP_AND ''and'' [] Z3_BOOL_SORT args"

definition Z3_mk_or :: "z3_ast list \<Rightarrow> z3_ast" where
  "Z3_mk_or args = Z3App Z3_OP_OR ''or'' [] Z3_BOOL_SORT args"

definition Z3_mk_add :: "z3_ast list \<Rightarrow> z3_ast" where
  "Z3_mk_add args = Z3App Z3_OP_ADD ''+'' [] (first_sort args) args"

definition Z3_mk_mul :: "z3_ast list \<Rightarrow> z3_ast" where
  "Z3_mk_mul args = Z3App Z3_OP_MUL ''*'' [] (first_sort args) args"

definition Z3_mk_sub :: "z3_ast list \<Rightarrow> z3_ast" where
  "Z3_mk_sub args = Z3App Z3_OP_SUB ''-'' [] (first_sort args) args"

definition Z3_mk_ite :: "z3_ast \<Rightarrow> z3_ast \<Rightarrow> z3_ast \<Rightarrow> z3_ast" where
  "Z3_mk_ite c t e = Z3App Z3_OP_ITE ''if'' [] (sort_of t) [c, t, e]"

definition Z3_mk_int2real :: "z3_ast \<Rightarrow> z3_ast" where
  "Z3_mk_int2real a = Z3App Z3_OP_TO_REAL ''to_real'' [] Z3_REAL_SORT [a]"

definition Z3_mk_const :: "string \<Rightarrow> z3_sort \<Rightarrow> z3_ast" where
  "Z3_mk_const name s = Z3App Z3_OP_UNINTERPRETED name [] s []"

definition Z3_mk_func_decl :: "string \<Rightarrow> z3_sort list \<Rightarrow> z3_sort \<Rightarrow> z3_ast" where
  "Z3_mk_func_decl name ds rng = Z3FuncDecl name ds rng"

fun Z3_mk_app :: "z3_ast \<Rightarrow> z3_ast list \<Rightarrow> error + z3_ast" where
  "Z3_mk_app (Z3FuncDecl name ds rng) args = Inr (Z3App Z3_OP_UNINTERPRETED name [] rng args)"
| "Z3_mk_app d args = Inl Z3Exception"

definition Z3_mk_numeral :: "int \<Rightarrow> int \<Rightarrow> z3_sort \<Rightarrow> z3_ast" where
  "Z3_mk_numeral n d s = Z3Num n d s"

definition BoolVal :: "bool \<Rightarrow> z3_ast" where
  "BoolVal b = (if b then Z3App Z3_OP_TRUE ''true'' [] Z3_BOOL_SORT []
                else Z3App Z3_OP_FALSE ''false'' [] Z3_BOOL_SORT [])"

definition Z3_mk_quantifier_const_ex :: "bool \<Rightarrow> z3_ast list \<Rightarrow> z3_ast \<Rightarrow> z3_ast" where
  "Z3_mk_quantifier_const_ex is_forall bound body = Z3Quantifier is_forall bound body"

definition Z3_mk_extract :: "int \<Rightarrow> int \<Rightarrow> z3_ast \<Rightarrow> z3_ast" where
  "Z3_mk_extract high low a =
     Z3App Z3_OP_EXTRACT ''extract'' [high, low] (Z3_BV_SORT (nat (high - low + 1))) [a]"

definition Z3_mk_zero_ext :: "int \<Rightarrow> z3_ast \<Rightarrow> z3_ast" where
  "Z3_mk_zero_ext i a =
     Z3App Z3_OP_ZERO_EXT ''zero_extend'' [i] (Z3_BV_SORT (bv_size (sort_of a) + nat i)) [a]"

definition Z3_mk_sign_ext :: "int \<Rightarrow> z3_ast \<Rightarrow> z3_ast" where
  "Z3_mk_sign_ext i a =
     Z3App Z3_OP_SIGN_EXT ''sign_extend'' [i] (Z3_BV_SORT (bv_size (sort_of a) + nat i)) [a]"

definition Z3_mk_bvnot :: "z3_ast \<Rightarrow> z3_ast" where
  "Z3_mk_bvnot a = Z3App Z3_OP_BNOT ''bvnot'' [] (sort_of a) [a]"

definition Z3_mk_bvneg :: "z3_ast \<Rightarrow> z3_ast" where
  "Z3_mk_bvneg a = Z3App Z3_OP_BNEG ''bvneg'' [] (sort_of a) [a]"

definition Z3_mk_ext_rotate_left :: "z3_ast \<Rightarrow> z3_ast \<Rightarrow> z3_ast" where
  "Z3_mk_ext_rotate_left a step =
     Z3App Z3_OP_EXT_ROTATE_LEFT ''ext_rotate_left'' [] (sort_of a) [a, step]"

definition Z3_mk_ext_rotate_right :: "z3_ast \<Rightarrow> z3_ast \<Rightarrow> z3_ast" where
  "Z3_mk_ext_rotate_right a step =
     Z3App Z3_OP_EXT_ROTATE_RIGHT ''ext_rotate_right'' [] (sort_of a) [a, step]"

definition Z3_mk_bv2int :: "z3_ast \<Rightarrow> bool \<Rightarrow> z3_ast" where
  "Z3_mk_bv2int a is_signed = Z3App Z3_OP_BV2INT ''bv2int'' [] Z3_INT_SORT [a]"

definition Z3_mk_select :: "z3_ast \<Rightarrow> z3_ast \<Rightarrow> z3_ast" where
  "Z3_mk_select a i = Z3App Z3_OP_SELECT ''select'' [] (array_range (sort_of a)) [a, i]"

definition Z3_mk_store :: "z3_ast \<Rightarrow> z3_ast \<Rightarrow> z3_ast \<Rightarrow> z3_ast" where
  "Z3_mk_store a i v = Z3App Z3_OP_STORE ''store'' [] (sort_of a) [a, i, v]"

definition Z3_mk_const_array :: "z3_sort \<Rightarrow> z3_ast \<Rightarrow> z3_ast" where
  "Z3_mk_const_array d v =
     Z3App Z3_OP_CONST_ARRAY ''const'' [] (Z3_ARRAY_SORT d (sort_of v)) [v]"

text \<open>A binary predicate of the engine: the result is Boolean.\<close>

definition mk_binary_pred :: "z3_kind \<Rightarrow> string \<Rightarrow> z3_ast \<Rightarrow> z3_ast \<Rightarrow> z3_ast" where
  "mk_binary_pred k name a b = Z3App k name [] Z3_BOOL_SORT [a, b]"

text \<open>A binary operation of the engine whose result has the sort of its first argument.\<close>

definition mk_binary_op :: "z3_kind \<Rightarrow> string \<Rightarrow> z3_ast \<Rightarrow> z3_ast \<Rightarrow> z3_ast" where
  "mk_binary_op k name a b = Z3App k name [] (sort_of a) [a, b]"

definition Z3_mk_implies :: "z3_ast \<Rightarrow> z3_ast \<Rightarrow> z3_ast" where
  "Z3_mk_implies = mk_binary_pred Z3_OP_IMPLIES ''=>''"

definition Z3_mk_le :: "z3_ast \<Rightarrow> z3_ast \<Rightarrow> z3_ast" where
  "Z3_mk_le = mk_binary_pred Z3_OP_LE ''<=''"

definition Z3_mk_lt :: "z3_ast \<Rightarrow> z3_ast \<Rightarrow> z3_ast" where
  "Z3_mk_lt = mk_binary_pred Z3_OP_LT ''<''"

definition Z3_mk_eq :: "z3_ast \<Rightarrow> z3_ast \<Rightarrow> z3_ast" where
  "Z3_mk_eq = mk_binary_pred Z3_OP_EQ ''=''"

definition Z3_mk_power :: "z3_ast \<Rightarrow> z3_ast \<Rightarrow> z3_ast" where
  "Z3_mk_power = mk_binary_op Z3_OP_POWER ''^''"

text \<open>Division of two integer terms is the engine's integer division, a kind of its own.\<close>

definition Z3_mk_div :: "z3_ast \<Rightarrow> z3_ast \<Rightarrow> z3_ast" where
  "Z3_mk_div a b =
     (if sort_of a = Z3_INT_SORT then mk_binary_op Z3_OP_IDIV ''div'' a b
      else mk_binary_op Z3_OP_DIV ''/'' a b)"

definition Z3_mk_bvult :: "z3_ast \<Rightarrow> z3_ast \<Rightarrow> z3_ast" where
  "Z3_mk_bvult = mk_binary_pred Z3_OP_ULT ''bvult''"

definition Z3_mk_bvule :: "z3_ast \<Rightarrow> z3_ast \<Rightarrow> z3_ast" where
  "Z3_mk_bvule = mk_binary_pred Z3_OP_ULEQ ''bvule''"

definition Z3_mk_bvslt :: "z3_ast \<Rightarrow> z3_ast \<Rightarrow> z3_ast" where
  "Z3_mk_bvslt = mk_binary_pred Z3_OP_SLT ''bvslt''"

definition Z3_mk_bvsle :: "z3_ast \<Rightarrow> z3_ast \<Rightarrow> z3_ast" where
  "Z3_mk_bvsle = mk_binary_pred Z3_OP_SLEQ ''bvsle''"

definition Z3_mk_concat :: "z3_ast \<Rightarrow> z3_ast \<Rightarrow> z3_ast" where
  "Z3_mk_concat a b =
     Z3App Z3_OP_CONCAT ''concat'' []
       (Z3_BV_SORT (bv_size (sort_of a) + bv_size (sort_of b))) [a, b]"

definition Z3_mk_bvor :: "z3_ast \<Rightarrow> z3_ast \<Rightarrow> z3_ast" where
  "Z3_mk_bvor = mk_binary_op Z3_OP_BOR ''bvor''"

definition Z3_mk_bvand :: "z3_ast \<Rightarrow> z3_ast \<Rightarrow> z3_ast" where
  "Z3_mk_bvand = mk_binary_op Z3_OP_BAND ''bvand''"

definition Z3_mk_bvxor :: "z3_ast \<Rightarrow> z3_ast \<Rightarrow> z3_ast" where
  "Z3_mk_bvxor = mk_binary_op Z3_OP_BXOR ''bvxor''"

definition Z3_mk_bvadd :: "z3_ast \<Rightarrow> z3_ast \<Rightarrow> z3_ast" where
  "Z3_mk_bvadd = mk_binary_op Z3_OP_BADD ''bvadd''"

definition Z3_mk_bvsub :: "z3_ast \<Rightarrow> z3_ast \<Rightarrow> z3_ast" where
  "Z3_mk_bvsub = mk_binary_op Z3_OP_BSUB ''bvsub''"

definition Z3_mk_bvmul :: "z3_ast \<Rightarrow> z3_ast \<Rightarrow> z3_ast" where
  "Z3_mk_bvmul = mk_binary_op Z3_OP_BMUL ''bvmul''"

definition Z3_mk_bvudiv :: "z3_ast \<Rightarrow> z3_ast \<Rightarrow> z3_ast" where
  "Z3_mk_bvudiv = mk_binary_op Z3_OP_BUDIV ''bvudiv''"

definition Z3_mk_bvurem :: "z3_ast \<Rightarrow> z3_ast \<Rightarrow> z3_ast" where
  "Z3_mk_bvurem = mk_binary_op Z3_OP_BUREM ''bvurem''"

definition Z3_mk_bvshl :: "z3_ast \<Rightarrow> z3_ast \<Rightarrow> z3_ast" where
  "Z3_mk_bvshl = mk_binary_op Z3_OP_BSHL ''bvshl''"

definition Z3_mk_bvlshr :: "z3_ast \<Rightarrow> z3_ast \<Rightarrow> z3_ast" where
  "Z3_mk_bvlshr = mk_binary_op Z3_OP_BLSHR ''bvlshr''"

definition Z3_mk_bvsdiv :: "z3_ast \<Rightarrow> z3_ast \<Rightarrow> z3_ast" where
  "Z3_mk_bvsdiv = mk_binary_op Z3_OP_BSDIV ''bvsdiv''"

definition Z3_mk_bvsrem :: "z3_ast \<Rightarrow> z3_ast \<Rightarrow> z3_ast" where
  "Z3_mk_bvsrem = mk_binary_op Z3_OP_BSREM ''bvsrem''"

definition Z3_mk_bvashr :: "z3_ast \<Rightarrow> z3_ast \<Rightarrow> z3_ast" where
  "Z3_mk_bvashr = mk_binary_op Z3_OP_BASHR ''bvashr''"

section \<open>Forward conversion\<close>

text \<open>
  \<^verbatim>\<open>Z3Converter._type_to_z3\<close>. The sort caches of the converter hold one sort per key
  and return it again; a sort is its value here, so the caches are not visible.
\<close>

fun type_to_z3 :: "ptype \<Rightarrow> error + z3_sort" where
  "type_to_z3 BOOL = Inr Z3_BOOL_SORT"
| "type_to_z3 REAL = Inr Z3_REAL_SORT"
| "type_to_z3 INT_TYPE = Inr Z3_INT_SORT"
| "type_to_z3 (ArrayType index_type elem_type) =
     (case type_to_z3 index_type of
        Inl err \<Rightarrow> Inl err
      | Inr key_sort \<Rightarrow>
          (case type_to_z3 elem_type of
             Inl err \<Rightarrow> Inl err
           | Inr val_sort \<Rightarrow> Inr (Z3_ARRAY_SORT key_sort val_sort)))"
| "type_to_z3 (BVType width) = Inr (Z3_BV_SORT width)"
| "type_to_z3 (CustomType name) = Inr (Z3_UNINTERPRETED_SORT name)"
| "type_to_z3 tp = Inl AssertionError"

text \<open>\<^verbatim>\<open>Z3Converter._z3_func_decl\<close>: the declaration of a function symbol.\<close>

fun z3_func_decl :: "fnode \<Rightarrow> error + z3_ast" where
  "z3_func_decl (FSymbol name (FunctionType return_type param_types)) =
     (case collect (map type_to_z3 param_types) of
        Inl err \<Rightarrow> Inl err
      | Inr z3dom \<Rightarrow>
          (case type_to_z3 return_type of
             Inl err \<Rightarrow> Inl err
           | Inr z3ret \<Rightarrow> Inr (Z3_mk_func_decl name z3dom z3ret)))"
| "z3_func_decl func_name = Inl AttributeError"

fun walk_symbol :: "fnode \<Rightarrow> error + z3_ast" where
  "walk_symbol (FSymbol sname (FunctionType r ps)) =
     z3_func_decl (FSymbol sname (FunctionType r ps))"
| "walk_symbol (FSymbol sname STRING) =
     Inl (ConvertExpressionError Unsupported_string_symbol (Formula_expr (FSymbol sname STRING)))"
| "walk_symbol (FSymbol sname symbol_type) =
     (case type_to_z3 symbol_type of
        Inl err \<Rightarrow> Inl err
      | Inr sort_ast \<Rightarrow> Inr (Z3_mk_const sname sort_ast))"
| "walk_symbol formula = Inl AssertionError"

definition walk_not :: "z3_ast list \<Rightarrow> error + z3_ast" where
  "walk_not args = (case arg args 0 of Inl err \<Rightarrow> Inl err | Inr a \<Rightarrow> Inr (Z3_mk_not a))"

text \<open>
  \<^verbatim>\<open>Z3Converter.walk_ite\<close>. \<open>tp\<close> is what the type-inference oracle answers for the
  formula being converted.
\<close>

definition walk_ite :: "ptype \<Rightarrow> z3_ast list \<Rightarrow> error + z3_ast" where
  "walk_ite tp args =
     (case arg args 0 of Inl err \<Rightarrow> Inl err | Inr i \<Rightarrow>
      (case walk_not [i] of Inl err \<Rightarrow> Inl err | Inr ni \<Rightarrow>
      (case arg args 1 of Inl err \<Rightarrow> Inl err | Inr t \<Rightarrow>
      (case arg args 2 of Inl err \<Rightarrow> Inl err | Inr e \<Rightarrow>
         if tp = BOOL then
           (let or1 = Z3_mk_or [ni, t];
                or2 = Z3_mk_or [i, e]
            in Inr (Z3_mk_and [or1, or2]))
         else Inr (Z3_mk_ite i t e)))))"

definition walk_real_constant :: "rat \<Rightarrow> z3_ast" where
  "walk_real_constant q =
     (case quotient_of q of (n, d) \<Rightarrow> Z3_mk_numeral n d Z3_REAL_SORT)"

definition walk_int_constant :: "int \<Rightarrow> z3_ast" where
  "walk_int_constant v = Z3_mk_numeral v 1 Z3_INT_SORT"

definition walk_bool_constant :: "bool \<Rightarrow> z3_ast" where
  "walk_bool_constant v = BoolVal v"

definition walk_bv_constant :: "int \<Rightarrow> nat \<Rightarrow> z3_ast" where
  "walk_bv_constant v width = Z3_mk_numeral v 1 (Z3_BV_SORT width)"

definition walk_quantifier :: "bool \<Rightarrow> fnode list \<Rightarrow> z3_ast list \<Rightarrow> error + z3_ast" where
  "walk_quantifier is_forall qvars args =
     (case collect (map walk_symbol qvars) of
        Inl err \<Rightarrow> Inl err
      | Inr zvars \<Rightarrow>
          (case arg args 0 of
             Inl err \<Rightarrow> Inl err
           | Inr body \<Rightarrow> Inr (Z3_mk_quantifier_const_ex is_forall zvars body)))"

definition walk_function :: "fnode \<Rightarrow> z3_ast list \<Rightarrow> error + z3_ast" where
  "walk_function function_name args =
     (case z3_func_decl function_name of
        Inl err \<Rightarrow> Inl err
      | Inr z3func \<Rightarrow> Z3_mk_app z3func args)"

text \<open>\<^verbatim>\<open>make_walk_nary\<close> and \<^verbatim>\<open>make_walk_binary\<close>.\<close>

definition walk_nary :: "(z3_ast list \<Rightarrow> z3_ast) \<Rightarrow> z3_ast list \<Rightarrow> error + z3_ast" where
  "walk_nary func args = Inr (func args)"

definition walk_binary ::
  "(z3_ast \<Rightarrow> z3_ast \<Rightarrow> z3_ast) \<Rightarrow> z3_ast list \<Rightarrow> error + z3_ast" where
  "walk_binary func args =
     (case arg args 0 of Inl err \<Rightarrow> Inl err | Inr a \<Rightarrow>
      (case arg args 1 of Inl err \<Rightarrow> Inl err | Inr b \<Rightarrow> Inr (func a b)))"

definition walk_unary :: "(z3_ast \<Rightarrow> z3_ast) \<Rightarrow> z3_ast list \<Rightarrow> error + z3_ast" where
  "walk_unary func args =
     (case arg args 0 of Inl err \<Rightarrow> Inl err | Inr a \<Rightarrow> Inr (func a))"

text \<open>The width of a bitvector formula, read from its type.\<close>

definition bv_width :: "ptype \<Rightarrow> error + nat" where
  "bv_width tp = (case tp of BVType w \<Rightarrow> Inr w | _ \<Rightarrow> Inl AssertionError)"

definition walk_bv_extract :: "int list \<Rightarrow> z3_ast list \<Rightarrow> error + z3_ast" where
  "walk_bv_extract payload args =
     (case arg payload 1 of Inl err \<Rightarrow> Inl err | Inr bv_extract_end \<Rightarrow>
      (case arg payload 0 of Inl err \<Rightarrow> Inl err | Inr bv_extract_start \<Rightarrow>
      (case arg args 0 of Inl err \<Rightarrow> Inl err | Inr a \<Rightarrow>
         Inr (Z3_mk_extract bv_extract_end bv_extract_start a))))"

definition walk_bv_rotate ::
  "(z3_ast \<Rightarrow> z3_ast \<Rightarrow> z3_ast) \<Rightarrow> ptype \<Rightarrow> int list \<Rightarrow> z3_ast list \<Rightarrow> error + z3_ast" where
  "walk_bv_rotate func tp payload args =
     (case bv_width tp of Inl err \<Rightarrow> Inl err | Inr width \<Rightarrow>
      (case arg payload 0 of Inl err \<Rightarrow> Inl err | Inr bv_rotation_step \<Rightarrow>
      (case arg args 0 of Inl err \<Rightarrow> Inl err | Inr a \<Rightarrow>
         Inr (func a (Z3_mk_numeral bv_rotation_step 1 (Z3_BV_SORT width))))))"

definition walk_bv_rol :: "ptype \<Rightarrow> int list \<Rightarrow> z3_ast list \<Rightarrow> error + z3_ast" where
  "walk_bv_rol = walk_bv_rotate Z3_mk_ext_rotate_left"

definition walk_bv_ror :: "ptype \<Rightarrow> int list \<Rightarrow> z3_ast list \<Rightarrow> error + z3_ast" where
  "walk_bv_ror = walk_bv_rotate Z3_mk_ext_rotate_right"

definition walk_bv_extend ::
  "(int \<Rightarrow> z3_ast \<Rightarrow> z3_ast) \<Rightarrow> int list \<Rightarrow> z3_ast list \<Rightarrow> error + z3_ast" where
  "walk_bv_extend func payload args =
     (case arg payload 0 of Inl err \<Rightarrow> Inl err | Inr bv_extend_step \<Rightarrow>
      (case arg args 0 of Inl err \<Rightarrow> Inl err | Inr a \<Rightarrow> Inr (func bv_extend_step a)))"

definition walk_bv_zext :: "int list \<Rightarrow> z3_ast list \<Rightarrow> error + z3_ast" where
  "walk_bv_zext = walk_bv_extend Z3_mk_zero_ext"

definition walk_bv_sext :: "int list \<Rightarrow> z3_ast list \<Rightarrow> error + z3_ast" where
  "walk_bv_sext = walk_bv_extend Z3_mk_sign_ext"

definition walk_bv_comp :: "z3_ast list \<Rightarrow> error + z3_ast" where
  "walk_bv_comp args =
     (case arg args 0 of Inl err \<Rightarrow> Inl err | Inr a \<Rightarrow>
      (case arg args 1 of Inl err \<Rightarrow> Inl err | Inr b \<Rightarrow>
         (let cond = Z3_mk_eq a b;
              then_term = Z3_mk_numeral 1 1 (Z3_BV_SORT 1);
              else_term = Z3_mk_numeral 0 1 (Z3_BV_SORT 1)
          in Inr (Z3_mk_ite cond then_term else_term))))"

definition walk_bv_tonatural :: "z3_ast list \<Rightarrow> error + z3_ast" where
  "walk_bv_tonatural args =
     (case arg args 0 of Inl err \<Rightarrow> Inl err | Inr a \<Rightarrow> Inr (Z3_mk_bv2int a False))"

definition walk_array_store :: "z3_ast list \<Rightarrow> error + z3_ast" where
  "walk_array_store args =
     (case arg args 0 of Inl err \<Rightarrow> Inl err | Inr a \<Rightarrow>
      (case arg args 1 of Inl err \<Rightarrow> Inl err | Inr i \<Rightarrow>
      (case arg args 2 of Inl err \<Rightarrow> Inl err | Inr v \<Rightarrow> Inr (Z3_mk_store a i v))))"

text \<open>The loop of \<^verbatim>\<open>walk_array_value\<close> over \<open>args[1:]\<close>, two arguments at a time.\<close>

fun store_pairs :: "z3_ast \<Rightarrow> z3_ast list \<Rightarrow> error + z3_ast" where
  "store_pairs z3term [] = Inr z3term"
| "store_pairs z3term [c] = Inl IndexError"
| "store_pairs z3term (c # v # rest) =
     (case walk_array_store [z3term, c, v] of
        Inl err \<Rightarrow> Inl err
      | Inr z3term' \<Rightarrow> store_pairs z3term' rest)"

definition walk_array_value :: "ptype \<Rightarrow> z3_ast list \<Rightarrow> error + z3_ast" where
  "walk_array_value idx_type args =
     (case type_to_z3 idx_type of Inl err \<Rightarrow> Inl err | Inr arraysort \<Rightarrow>
      (case arg args 0 of Inl err \<Rightarrow> Inl err | Inr a \<Rightarrow>
         store_pairs (Z3_mk_const_array arraysort a) (tl args)))"

text \<open>
  The dispatch of the walker on the operator of a node: the \<^verbatim>\<open>walk_\<close> method of that
  operator. An operator without one raises \<^verbatim>\<open>UnsupportedOperatorError\<close> in the walker,
  which the decorator of \<^verbatim>\<open>convert\<close> turns into a \<^verbatim>\<open>ConvertExpressionError\<close>.
\<close>

definition walk_op ::
  "ptype \<Rightarrow> node_op \<Rightarrow> int list \<Rightarrow> fnode \<Rightarrow> z3_ast list \<Rightarrow> error + z3_ast" where
  "walk_op tp opr payload formula args =
     (case opr of
        AND \<Rightarrow> walk_nary Z3_mk_and args
      | OR \<Rightarrow> walk_nary Z3_mk_or args
      | PLUS \<Rightarrow> walk_nary Z3_mk_add args
      | TIMES \<Rightarrow> walk_nary Z3_mk_mul args
      | MINUS \<Rightarrow> walk_nary Z3_mk_sub args
      | NOT \<Rightarrow> walk_not args
      | ITE \<Rightarrow> walk_ite tp args
      | TOREAL \<Rightarrow> walk_unary Z3_mk_int2real args
      | IMPLIES \<Rightarrow> walk_binary Z3_mk_implies args
      | LE \<Rightarrow> walk_binary Z3_mk_le args
      | LT \<Rightarrow> walk_binary Z3_mk_lt args
      | EQUALS \<Rightarrow> walk_binary Z3_mk_eq args
      | IFF \<Rightarrow> walk_binary Z3_mk_eq args
      | POW \<Rightarrow> walk_binary Z3_mk_power args
      | DIV \<Rightarrow> walk_binary Z3_mk_div args
      | BV_ULT \<Rightarrow> walk_binary Z3_mk_bvult args
      | BV_ULE \<Rightarrow> walk_binary Z3_mk_bvule args
      | BV_SLT \<Rightarrow> walk_binary Z3_mk_bvslt args
      | BV_SLE \<Rightarrow> walk_binary Z3_mk_bvsle args
      | BV_CONCAT \<Rightarrow> walk_binary Z3_mk_concat args
      | BV_OR \<Rightarrow> walk_binary Z3_mk_bvor args
      | BV_AND \<Rightarrow> walk_binary Z3_mk_bvand args
      | BV_XOR \<Rightarrow> walk_binary Z3_mk_bvxor args
      | BV_ADD \<Rightarrow> walk_binary Z3_mk_bvadd args
      | BV_SUB \<Rightarrow> walk_binary Z3_mk_bvsub args
      | BV_MUL \<Rightarrow> walk_binary Z3_mk_bvmul args
      | BV_UDIV \<Rightarrow> walk_binary Z3_mk_bvudiv args
      | BV_UREM \<Rightarrow> walk_binary Z3_mk_bvurem args
      | BV_LSHL \<Rightarrow> walk_binary Z3_mk_bvshl args
      | BV_LSHR \<Rightarrow> walk_binary Z3_mk_bvlshr args
      | BV_SDIV \<Rightarrow> walk_binary Z3_mk_bvsdiv args
      | BV_SREM \<Rightarrow> walk_binary Z3_mk_bvsrem args
      | BV_ASHR \<Rightarrow> walk_binary Z3_mk_bvashr args
      | BV_EXTRACT \<Rightarrow> walk_bv_extract payload args
      | BV_NOT \<Rightarrow> walk_unary Z3_mk_bvnot args
      | BV_NEG \<Rightarrow> walk_unary Z3_mk_bvneg args
      | BV_ROL \<Rightarrow> walk_bv_rol tp payload args
      | BV_ROR \<Rightarrow> walk_bv_ror tp payload args
      | BV_ZEXT \<Rightarrow> walk_bv_zext payload args
      | BV_SEXT \<Rightarrow> walk_bv_sext payload args
      | BV_COMP \<Rightarrow> walk_bv_comp args
      | BV_TONATURAL \<Rightarrow> walk_bv_tonatural args
      | ARRAY_SELECT \<Rightarrow> walk_binary Z3_mk_select args
      | ARRAY_STORE \<Rightarrow> walk_array_store args
      | _ \<Rightarrow> Inl (ConvertExpressionError Could_not_convert (Formula_expr formula)))"

text \<open>
  \<^verbatim>\<open>DagWalker.walk\<close> with the methods above: the arguments of a node are converted
  first, then the node. The walker keeps the native term of every formula it has
  converted and returns it on a second visit; a native term is its value here, so a
  second visit yields the same term either way. \<open>stc\<close> is the type-inference oracle
  of the environment (\<^verbatim>\<open>_get_type\<close>).
\<close>

fun walk :: "(fnode \<Rightarrow> ptype) \<Rightarrow> fnode \<Rightarrow> error + z3_ast" where
  "walk stc (FSymbol sname tp) = walk_symbol (FSymbol sname tp)"
| "walk stc (FBool b) = Inr (walk_bool_constant b)"
| "walk stc (FInt v) = Inr (walk_int_constant v)"
| "walk stc (FReal q) = Inr (walk_real_constant q)"
| "walk stc (FBV v width) = Inr (walk_bv_constant v width)"
| "walk stc (FString v) =
     Inl (ConvertExpressionError Could_not_convert (Formula_expr (FString v)))"
| "walk stc (FAlgebraic v) =
     Inl (ConvertExpressionError Could_not_convert (Formula_expr (FAlgebraic v)))"
| "walk stc (FNode opr fargs payload) =
     (case collect (map (walk stc) fargs) of
        Inl err \<Rightarrow> Inl err
      | Inr args \<Rightarrow>
          walk_op (stc (FNode opr fargs payload)) opr payload (FNode opr fargs payload) args)"
| "walk stc (FArray idx_type dflt assign) =
     (case collect (walk stc dflt #
                    concat (map (\<lambda>kv. [walk stc (fst kv), walk stc (snd kv)]) assign)) of
        Inl err \<Rightarrow> Inl err
      | Inr args \<Rightarrow> walk_array_value idx_type args)"
| "walk stc (FFunction function_name fargs) =
     (case collect (map (walk stc) fargs) of
        Inl err \<Rightarrow> Inl err
      | Inr args \<Rightarrow> walk_function function_name args)"
| "walk stc (FQuantifier is_forall qvars body) =
     (case walk stc body of
        Inl err \<Rightarrow> Inl err
      | Inr b \<Rightarrow> walk_quantifier is_forall qvars [b])"

text \<open>
  \<^verbatim>\<open>Z3Converter.convert\<close>. The reference class that \<^verbatim>\<open>get_z3_ref\<close> picks wraps the
  native term for the Python API and does not change it.
\<close>

definition convert :: "(fnode \<Rightarrow> ptype) \<Rightarrow> fnode \<Rightarrow> error + z3_ast" where
  "convert stc formula = walk stc formula"

section \<open>Backward conversion\<close>

subsection \<open>Models, the symbol table and the converter's state\<close>

text \<open>
  A model of the engine: \<open>Z3Model ident interps\<close>. The memo of the backward
  converter uses the Python object of the model as part of its key, so a model has an
  identity \<open>ident\<close>: two model objects are the same key only if they are the same
  object. \<open>interps\<close> gives, by name of the declaration, the interpretation of a
  function: its entries (arguments, value) and its \<^verbatim>\<open>else_value\<close>.
\<close>

datatype func_entry = FuncEntry "z3_ast list" z3_ast

datatype func_interp = FuncInterp "func_entry list" z3_ast

datatype z3_model = Z3Model nat "(string \<times> func_interp) list"

fun model_interps :: "z3_model \<Rightarrow> (string \<times> func_interp) list" where
  "model_interps (Z3Model ident interps) = interps"

type_synonym symtab = "(string \<times> ptype) list"

type_synonym back_key = "z3_ast \<times> z3_model option"

text \<open>
  The state that backward conversion reads and writes: \<^verbatim>\<open>_back_memoization\<close>, where
  a key is absent, present with Python's \<^verbatim>\<open>None\<close> (visited, not yet resolved) or
  present with a formula; and the symbol table of the formula manager.
\<close>

record cstate =
  back_memoization :: "back_key \<Rightarrow> fnode option option"
  symbols :: symtab

text \<open>
  Modelled from the spec: the symbol table of the formula manager (\<^verbatim>\<open>get_symbol\<close>,
  \<^verbatim>\<open>Symbol\<close>), whose code is outside this file: the declared names with their types,
  in the order of declaration. Symbols are unique by name;
  \<^verbatim>\<open>get_symbol\<close> raises \<^verbatim>\<open>UndefinedSymbolError\<close> on an unknown name; \<^verbatim>\<open>Symbol\<close> returns
  the symbol of that name, declaring it when there is none.
\<close>

definition get_symbol :: "symtab \<Rightarrow> string \<Rightarrow> error + fnode" where
  "get_symbol tab name =
     (case map_of tab name of
        None \<Rightarrow> Inl (UndefinedSymbolError name)
      | Some tp \<Rightarrow> Inr (FSymbol name tp))"

definition Symbol :: "symtab \<Rightarrow> string \<Rightarrow> ptype \<Rightarrow> (error + fnode) \<times> symtab" where
  "Symbol tab name tp =
     (case map_of tab name of
        None \<Rightarrow> (Inr (FSymbol name tp), tab @ [(name, tp)])
      | Some tp' \<Rightarrow> (if tp' = tp then Inr (FSymbol name tp) else Inl PysmtTypeError, tab))"

subsection \<open>Reading native terms\<close>

fun is_quantifier :: "z3_ast \<Rightarrow> bool" where
  "is_quantifier (Z3Quantifier fa bound body) = True"
| "is_quantifier t = False"

fun is_expr :: "z3_ast \<Rightarrow> bool" where
  "is_expr (Z3FuncDecl name ds rng) = False"
| "is_expr t = True"

text \<open>\<^verbatim>\<open>Z3_get_decl_kind\<close> of the declaration of an application; a numeral is an
  application of a numeral kind. A quantifier has no declaration.\<close>

fun decl_kind :: "z3_ast \<Rightarrow> error + z3_kind" where
  "decl_kind (Z3App k name params s args) = Inr k"
| "decl_kind (Z3Num n d (Z3_BV_SORT w)) = Inr Z3_OP_BNUM"
| "decl_kind (Z3Num n d s) = Inr Z3_OP_ANUM"
| "decl_kind (Z3Alg name) = Inr Z3_OP_AGNUM"
| "decl_kind t = Inl Z3Exception"

definition is_app_of :: "z3_ast \<Rightarrow> z3_kind \<Rightarrow> bool" where
  "is_app_of t k = (decl_kind t = Inr k)"

fun is_const :: "z3_ast \<Rightarrow> bool" where
  "is_const (Z3App k name params s args) = (args = [])"
| "is_const (Z3Num n d s) = True"
| "is_const (Z3Alg name) = True"
| "is_const t = False"

fun is_rational_value :: "z3_ast \<Rightarrow> bool" where
  "is_rational_value (Z3Num n d s) = (s = Z3_REAL_SORT)"
| "is_rational_value t = False"

fun is_int_value :: "z3_ast \<Rightarrow> bool" where
  "is_int_value (Z3Num n d s) = (s = Z3_INT_SORT)"
| "is_int_value t = False"

fun is_bv_value :: "z3_ast \<Rightarrow> bool" where
  "is_bv_value (Z3Num n d (Z3_BV_SORT w)) = True"
| "is_bv_value t = False"

fun is_algebraic_value :: "z3_ast \<Rightarrow> bool" where
  "is_algebraic_value (Z3Alg name) = True"
| "is_algebraic_value t = False"

definition is_as_array :: "z3_ast \<Rightarrow> bool" where
  "is_as_array t = is_app_of t Z3_OP_AS_ARRAY"

text \<open>The numerator and denominator of a numeral (\<^verbatim>\<open>as_long\<close> is its numerator).\<close>

fun numerator_as_long :: "z3_ast \<Rightarrow> int" where
  "numerator_as_long (Z3Num n d s) = n"
| "numerator_as_long t = 0"

fun denominator_as_long :: "z3_ast \<Rightarrow> int" where
  "denominator_as_long (Z3Num n d s) = d"
| "denominator_as_long t = 1"

text \<open>
  What Python's \<^verbatim>\<open>str\<close> and \<^verbatim>\<open>decl().name()\<close> give for a constant or an
  application: the name of its declaration.
\<close>

fun z3_name :: "z3_ast \<Rightarrow> string" where
  "z3_name (Z3App k name params s args) = name"
| "z3_name (Z3Alg name) = name"
| "z3_name (Z3FuncDecl name ds rng) = name"
| "z3_name t = []"

text \<open>\<^verbatim>\<open>z3.get_payload\<close>: the \<open>i\<close>-th integer parameter of the declaration.\<close>

fun get_payload :: "z3_ast \<Rightarrow> nat \<Rightarrow> error + int" where
  "get_payload (Z3App k name params s args) i =
     (if i < length params then Inr (params ! i) else Inl Z3Exception)"
| "get_payload t i = Inl Z3Exception"

text \<open>\<^verbatim>\<open>Z3Converter._z3_to_type\<close>.\<close>

fun z3_to_type :: "z3_sort \<Rightarrow> error + ptype" where
  "z3_to_type Z3_BOOL_SORT = Inr BOOL"
| "z3_to_type Z3_INT_SORT = Inr INT_TYPE"
| "z3_to_type Z3_REAL_SORT = Inr REAL"
| "z3_to_type (Z3_ARRAY_SORT d r) =
     (case z3_to_type d of
        Inl err \<Rightarrow> Inl err
      | Inr dt \<Rightarrow> (case z3_to_type r of Inl err \<Rightarrow> Inl err | Inr rt \<Rightarrow> Inr (ArrayType dt rt)))"
| "z3_to_type (Z3_BV_SORT w) = Inr (BVType w)"
| "z3_to_type (Z3_UNINTERPRETED_SORT name) = Inr (CustomType name)"
| "z3_to_type (Z3_UNKNOWN_SORT name) = Inl NotImplementedError"

text \<open>The attribute \<^verbatim>\<open>index_type\<close> of a type: only array types have it.\<close>

fun index_type :: "ptype \<Rightarrow> error + ptype" where
  "index_type (ArrayType i e) = Inr i"
| "index_type tp = Inl AttributeError"

subsection \<open>The dispatch table\<close>

text \<open>Calls of manager methods with one, two and three arguments taken from \<open>args\<close>.\<close>

definition node1 :: "node_op \<Rightarrow> fnode list \<Rightarrow> error + fnode" where
  "node1 opr args =
     (case arg args 0 of Inl err \<Rightarrow> Inl err | Inr a \<Rightarrow> Inr (FNode opr [a] []))"

definition node2 :: "node_op \<Rightarrow> fnode list \<Rightarrow> error + fnode" where
  "node2 opr args =
     (case arg args 0 of Inl err \<Rightarrow> Inl err | Inr a \<Rightarrow>
      (case arg args 1 of Inl err \<Rightarrow> Inl err | Inr b \<Rightarrow> Inr (FNode opr [a, b] [])))"

definition node3 :: "node_op \<Rightarrow> fnode list \<Rightarrow> error + fnode" where
  "node3 opr args =
     (case arg args 0 of Inl err \<Rightarrow> Inl err | Inr a \<Rightarrow>
      (case arg args 1 of Inl err \<Rightarrow> Inl err | Inr b \<Rightarrow>
      (case arg args 2 of Inl err \<Rightarrow> Inl err | Inr c \<Rightarrow> Inr (FNode opr [a, b, c] []))))"

text \<open>A manager method with one formula argument and one parameter read from the
  declaration of the native term.\<close>

definition node1_payload :: "node_op \<Rightarrow> fnode list \<Rightarrow> z3_ast \<Rightarrow> error + fnode" where
  "node1_payload opr args expr =
     (case arg args 0 of Inl err \<Rightarrow> Inl err | Inr a \<Rightarrow>
      (case get_payload expr 0 of Inl err \<Rightarrow> Inl err | Inr p \<Rightarrow> Inr (FNode opr [a] [p])))"

fun bv_unsigned_value :: "fnode \<Rightarrow> error + int" where
  "bv_unsigned_value (FBV v w) = Inr v"
| "bv_unsigned_value f = Inl AssertionError"

definition node_rotate :: "node_op \<Rightarrow> fnode list \<Rightarrow> error + fnode" where
  "node_rotate opr args =
     (case arg args 0 of Inl err \<Rightarrow> Inl err | Inr a \<Rightarrow>
      (case arg args 1 of Inl err \<Rightarrow> Inl err | Inr b \<Rightarrow>
      (case bv_unsigned_value b of Inl err \<Rightarrow> Inl err | Inr step \<Rightarrow>
         Inr (FNode opr [a] [step]))))"

definition back_extract :: "fnode list \<Rightarrow> z3_ast \<Rightarrow> error + fnode" where
  "back_extract args expr =
     (case arg args 0 of Inl err \<Rightarrow> Inl err | Inr a \<Rightarrow>
      (case get_payload expr 1 of Inl err \<Rightarrow> Inl err | Inr p1 \<Rightarrow>
      (case get_payload expr 0 of Inl err \<Rightarrow> Inl err | Inr p0 \<Rightarrow>
         Inr (FNode BV_EXTRACT [a] [p1, p0]))))"

text \<open>\<^verbatim>\<open>_back_z3_eq\<close>, \<^verbatim>\<open>_back_z3_uminus\<close> and \<^verbatim>\<open>_back_z3_const_array\<close>.\<close>

definition back_z3_eq :: "(fnode \<Rightarrow> ptype) \<Rightarrow> fnode list \<Rightarrow> z3_ast \<Rightarrow> error + fnode" where
  "back_z3_eq stc args expr =
     (case arg args 0 of Inl err \<Rightarrow> Inl err | Inr a \<Rightarrow>
        if stc a = BOOL then node2 IFF args else node2 EQUALS args)"

definition back_z3_uminus :: "(fnode \<Rightarrow> ptype) \<Rightarrow> fnode list \<Rightarrow> z3_ast \<Rightarrow> error + fnode" where
  "back_z3_uminus stc args expr =
     (case arg args 0 of Inl err \<Rightarrow> Inl err | Inr a \<Rightarrow>
        if stc a = REAL then Inr (FNode TIMES [a, FReal (- 1)] [])
        else if stc a = INT_TYPE then Inr (FNode TIMES [a, FInt (- 1)] [])
        else Inl AssertionError)"

definition back_z3_const_array :: "fnode list \<Rightarrow> z3_ast \<Rightarrow> error + fnode" where
  "back_z3_const_array args expr =
     (case z3_to_type (sort_of expr) of Inl err \<Rightarrow> Inl err | Inr arr_ty \<Rightarrow>
      (case index_type arr_ty of Inl err \<Rightarrow> Inl err | Inr idx \<Rightarrow>
      (case arg args 0 of Inl err \<Rightarrow> Inl err | Inr a \<Rightarrow> Inr (FArray idx a []))))"

text \<open>
  \<^verbatim>\<open>_back_fun\<close>: the reconstruction rule of a declaration kind, \<open>None\<close> for a kind
  that is not a key of the table.
\<close>

definition back_fun ::
  "(fnode \<Rightarrow> ptype) \<Rightarrow> z3_kind \<Rightarrow> (fnode list \<Rightarrow> z3_ast \<Rightarrow> error + fnode) option" where
  "back_fun stc kind =
     (case kind of
        Z3_OP_AND \<Rightarrow> Some (\<lambda>args expr. Inr (FNode AND args []))
      | Z3_OP_OR \<Rightarrow> Some (\<lambda>args expr. Inr (FNode OR args []))
      | Z3_OP_MUL \<Rightarrow> Some (\<lambda>args expr. Inr (FNode TIMES args []))
      | Z3_OP_ADD \<Rightarrow> Some (\<lambda>args expr. Inr (FNode PLUS args []))
      | Z3_OP_DIV \<Rightarrow> Some (\<lambda>args expr. node2 DIV args)
      | Z3_OP_IFF \<Rightarrow> Some (\<lambda>args expr. node2 IFF args)
      | Z3_OP_XOR \<Rightarrow> Some (\<lambda>args expr. node2 XOR args)
      | Z3_OP_FALSE \<Rightarrow> Some (\<lambda>args expr. Inr (FBool False))
      | Z3_OP_TRUE \<Rightarrow> Some (\<lambda>args expr. Inr (FBool True))
      | Z3_OP_GT \<Rightarrow> Some (\<lambda>args expr. node2 GT args)
      | Z3_OP_GE \<Rightarrow> Some (\<lambda>args expr. node2 GE args)
      | Z3_OP_LT \<Rightarrow> Some (\<lambda>args expr. node2 LT args)
      | Z3_OP_LE \<Rightarrow> Some (\<lambda>args expr. node2 LE args)
      | Z3_OP_SUB \<Rightarrow> Some (\<lambda>args expr. node2 MINUS args)
      | Z3_OP_NOT \<Rightarrow> Some (\<lambda>args expr. node1 NOT args)
      | Z3_OP_IMPLIES \<Rightarrow> Some (\<lambda>args expr. node2 IMPLIES args)
      | Z3_OP_ITE \<Rightarrow> Some (\<lambda>args expr. node3 ITE args)
      | Z3_OP_TO_REAL \<Rightarrow> Some (\<lambda>args expr. node1 TOREAL args)
      | Z3_OP_BAND \<Rightarrow> Some (\<lambda>args expr. node2 BV_AND args)
      | Z3_OP_BOR \<Rightarrow> Some (\<lambda>args expr. node2 BV_OR args)
      | Z3_OP_BXOR \<Rightarrow> Some (\<lambda>args expr. node2 BV_XOR args)
      | Z3_OP_BNOT \<Rightarrow> Some (\<lambda>args expr. node1 BV_NOT args)
      | Z3_OP_BNEG \<Rightarrow> Some (\<lambda>args expr. node1 BV_NEG args)
      | Z3_OP_CONCAT \<Rightarrow> Some (\<lambda>args expr. node2 BV_CONCAT args)
      | Z3_OP_ULT \<Rightarrow> Some (\<lambda>args expr. node2 BV_ULT args)
      | Z3_OP_ULEQ \<Rightarrow> Some (\<lambda>args expr. node2 BV_ULE args)
      | Z3_OP_SLT \<Rightarrow> Some (\<lambda>args expr. node2 BV_SLT args)
      | Z3_OP_SLEQ \<Rightarrow> Some (\<lambda>args expr. node2 BV_SLE args)
      | Z3_OP_UGT \<Rightarrow> Some (\<lambda>args expr. node2 BV_UGT args)
      | Z3_OP_UGEQ \<Rightarrow> Some (\<lambda>args expr. node2 BV_UGE args)
      | Z3_OP_SGT \<Rightarrow> Some (\<lambda>args expr. node2 BV_SGT args)
      | Z3_OP_SGEQ \<Rightarrow> Some (\<lambda>args expr. node2 BV_SGE args)
      | Z3_OP_BADD \<Rightarrow> Some (\<lambda>args expr. node2 BV_ADD args)
      | Z3_OP_BMUL \<Rightarrow> Some (\<lambda>args expr. node2 BV_MUL args)
      | Z3_OP_BUDIV \<Rightarrow> Some (\<lambda>args expr. node2 BV_UDIV args)
      | Z3_OP_BSDIV \<Rightarrow> Some (\<lambda>args expr. node2 BV_SDIV args)
      | Z3_OP_BUREM \<Rightarrow> Some (\<lambda>args expr. node2 BV_UREM args)
      | Z3_OP_BSREM \<Rightarrow> Some (\<lambda>args expr. node2 BV_SREM args)
      | Z3_OP_BSHL \<Rightarrow> Some (\<lambda>args expr. node2 BV_LSHL args)
      | Z3_OP_BLSHR \<Rightarrow> Some (\<lambda>args expr. node2 BV_LSHR args)
      | Z3_OP_BASHR \<Rightarrow> Some (\<lambda>args expr. node2 BV_ASHR args)
      | Z3_OP_BSUB \<Rightarrow> Some (\<lambda>args expr. node2 BV_SUB args)
      | Z3_OP_EXT_ROTATE_LEFT \<Rightarrow> Some (\<lambda>args expr. node_rotate BV_ROL args)
      | Z3_OP_EXT_ROTATE_RIGHT \<Rightarrow> Some (\<lambda>args expr. node_rotate BV_ROR args)
      | Z3_OP_BV2INT \<Rightarrow> Some (\<lambda>args expr. node1 BV_TONATURAL args)
      | Z3_OP_POWER \<Rightarrow> Some (\<lambda>args expr. node2 POW args)
      | Z3_OP_SELECT \<Rightarrow> Some (\<lambda>args expr. node2 ARRAY_SELECT args)
      | Z3_OP_STORE \<Rightarrow> Some (\<lambda>args expr. node3 ARRAY_STORE args)
      | Z3_OP_SIGN_EXT \<Rightarrow> Some (\<lambda>args expr. node1_payload BV_SEXT args expr)
      | Z3_OP_ZERO_EXT \<Rightarrow> Some (\<lambda>args expr. node1_payload BV_ZEXT args expr)
      | Z3_OP_ROTATE_LEFT \<Rightarrow> Some (\<lambda>args expr. node1_payload BV_ROL args expr)
      | Z3_OP_ROTATE_RIGHT \<Rightarrow> Some (\<lambda>args expr. node1_payload BV_ROR args expr)
      | Z3_OP_EXTRACT \<Rightarrow> Some back_extract
      | Z3_OP_EQ \<Rightarrow> Some (back_z3_eq stc)
      | Z3_OP_UMINUS \<Rightarrow> Some (back_z3_uminus stc)
      | Z3_OP_CONST_ARRAY \<Rightarrow> Some back_z3_const_array
      | _ \<Rightarrow> None)"

subsection \<open>Lifting one term, and the worklist\<close>

text \<open>A Python dictionary in insertion order: \<^verbatim>\<open>d[k] = v\<close>.\<close>

definition dict_set :: "('k \<times> 'v) list \<Rightarrow> 'k \<Rightarrow> 'v \<Rightarrow> ('k \<times> 'v) list" where
  "dict_set d k v =
     (if k \<in> fst ` set d then map (\<lambda>kv. if fst kv = k then (k, v) else kv) d
      else d @ [(k, v)])"

text \<open>The condition of the assertion on terms with more than two arguments.\<close>

definition nary_ok :: "z3_ast \<Rightarrow> fnode list \<Rightarrow> bool" where
  "nary_ok expr args =
     (\<not> length args > 2 \<or>
      (is_app_of expr Z3_OP_AND \<or> is_app_of expr Z3_OP_OR \<or>
       is_app_of expr Z3_OP_ADD \<or> is_app_of expr Z3_OP_MUL \<or>
       (length args = 3 \<and> (is_app_of expr Z3_OP_ITE \<or> is_app_of expr Z3_OP_STORE))))"

text \<open>
  The list \<^verbatim>\<open>[self._back_memoization[(askey(c), model)] for c in current.children()]\<close>:
  a missing key raises \<^verbatim>\<open>KeyError\<close>. A key that is present with \<^verbatim>\<open>None\<close> gives
  Python's \<^verbatim>\<open>None\<close> where a formula is expected; that is \<^verbatim>\<open>TypeError\<close> here.
\<close>

fun read_args :: "(back_key \<Rightarrow> fnode option option) \<Rightarrow> z3_model option \<Rightarrow> z3_ast list \<Rightarrow> error + fnode list" where
  "read_args memo model [] = Inr []"
| "read_args memo model (c # cs) =
     (case memo (c, model) of
        None \<Rightarrow> Inl KeyError
      | Some None \<Rightarrow> Inl TypeError
      | Some (Some v) \<Rightarrow>
          (case read_args memo model cs of Inl err \<Rightarrow> Inl err | Inr vs \<Rightarrow> Inr (v # vs)))"

text \<open>
  What a call leaves behind: its result or the exception it raised, the state after it
  (also after an exception), and the keys on which \<^verbatim>\<open>_back_single_term\<close> was called
  during it, in the order of the calls. The list of keys observes the run; the code
  does not keep it. \<open>None\<close> means that the fuel of the run was used up.
\<close>

type_synonym 'a outcome = "((error + 'a) \<times> cstate \<times> back_key list) option"



text \<open>
  \<^verbatim>\<open>_back_single_term\<close> calls \<^verbatim>\<open>self.back\<close> for the parts of an interpretation; the
  functions below take that callee as their first argument \<open>bk\<close>.
\<close>

type_synonym backf = "z3_ast \<Rightarrow> z3_model option \<Rightarrow> cstate \<Rightarrow> fnode outcome"

definition make_array :: "z3_ast \<Rightarrow> fnode \<Rightarrow> (fnode \<times> fnode) list \<Rightarrow> error + fnode" where
  "make_array expr dflt assign =
     (case z3_to_type (sort_of expr) of
        Inl err \<Rightarrow> Inl err
      | Inr arr_type \<Rightarrow>
          (case index_type arr_type of
             Inl err \<Rightarrow> Inl err
           | Inr idx \<Rightarrow> Inr (FArray idx dflt assign)))"

text \<open>The loop over the entries of an interpretation, filling \<^verbatim>\<open>assign\<close>.\<close>

fun back_entries ::
  "backf \<Rightarrow> func_entry list \<Rightarrow> z3_model \<Rightarrow> (fnode \<times> fnode) list \<Rightarrow> cstate
     \<Rightarrow> ((fnode \<times> fnode) list) outcome" where
  "back_entries bk [] m assign st = Some (Inr assign, st, [])"
| "back_entries bk (FuncEntry eargs v # es) m assign st =
     (if length eargs \<noteq> 1 then Some (Inl AssertionError, st, [])
      else
        (case bk (hd eargs) (Some m) st of
           None \<Rightarrow> None
         | Some (Inl err, st1, tr1) \<Rightarrow> Some (Inl err, st1, tr1)
         | Some (Inr idx, st1, tr1) \<Rightarrow>
             (case bk v (Some m) st1 of
                None \<Rightarrow> None
              | Some (Inl err, st2, tr2) \<Rightarrow> Some (Inl err, st2, tr1 @ tr2)
              | Some (Inr val, st2, tr2) \<Rightarrow>
                  (case back_entries bk es m (dict_set assign idx val) st2 of
                     None \<Rightarrow> None
                   | Some (r, st3, tr3) \<Rightarrow> Some (r, st3, tr1 @ tr2 @ tr3)))))"

text \<open>The branch of \<^verbatim>\<open>_back_single_term\<close> for an as-array term under a model.\<close>

definition back_as_array :: "backf \<Rightarrow> z3_ast \<Rightarrow> z3_model \<Rightarrow> cstate \<Rightarrow> fnode outcome" where
  "back_as_array bk expr m st =
     (case map_of (model_interps m) (z3_name expr) of
        None \<Rightarrow> Some (Inl AttributeError, st, [])
      | Some (FuncInterp entries else_value) \<Rightarrow>
          (case bk else_value (Some m) st of
             None \<Rightarrow> None
           | Some (Inl err, st1, tr1) \<Rightarrow> Some (Inl err, st1, tr1)
           | Some (Inr dflt, st1, tr1) \<Rightarrow>
               (case back_entries bk entries m [] st1 of
                  None \<Rightarrow> None
                | Some (Inl err, st2, tr2) \<Rightarrow> Some (Inl err, st2, tr1 @ tr2)
                | Some (Inr assign, st2, tr2) \<Rightarrow>
                    Some (make_array expr dflt assign, st2, tr1 @ tr2))))"

text \<open>\<^verbatim>\<open>Z3Converter._back_single_term\<close>.\<close>

definition back_single_term ::
  "backf \<Rightarrow> (fnode \<Rightarrow> ptype) \<Rightarrow> z3_ast \<Rightarrow> fnode list \<Rightarrow> z3_model option
     \<Rightarrow> cstate \<Rightarrow> fnode outcome" where
  "back_single_term bk stc expr args model st =
     (if \<not> is_expr expr then Some (Inl AssertionError, st, [])
      else if is_quantifier expr then Some (Inl NotImplementedError, st, [])
      else if \<not> nary_ok expr args then Some (Inl AssertionError, st, [])
      else
        (case decl_kind expr of
           Inl err \<Rightarrow> Some (Inl err, st, [])
         | Inr kind \<Rightarrow>
             (case back_fun stc kind of
                Some f \<Rightarrow> Some (f args expr, st, [])
              | None \<Rightarrow>
                  if is_const expr then
                    if is_rational_value expr then
                      (if denominator_as_long expr = 0 then Some (Inl ZeroDivisionError, st, [])
                       else Some (Inr (FReal (Fract (numerator_as_long expr)
                                                    (denominator_as_long expr))), st, []))
                    else if is_int_value expr then
                      Some (Inr (FInt (numerator_as_long expr)), st, [])
                    else if is_bv_value expr then
                      Some (Inr (FBV (numerator_as_long expr) (bv_size (sort_of expr))), st, [])
                    else if is_as_array expr then
                      (case model of
                         None \<Rightarrow> Some (Inl NotImplementedError, st, [])
                       | Some m \<Rightarrow> back_as_array bk expr m st)
                    else if is_algebraic_value expr then Some (Inr (FAlgebraic expr), st, [])
                    else
                      (case get_symbol (symbols st) (z3_name expr) of
                         Inr symb \<Rightarrow> Some (Inr symb, st, [])
                       | Inl (UndefinedSymbolError name) \<Rightarrow>
                           (case z3_to_type (sort_of expr) of
                              Inl err \<Rightarrow> Some (Inl err, st, [])
                            | Inr symb_type \<Rightarrow>
                                (case Symbol (symbols st) (z3_name expr) symb_type of
                                   (r, tab) \<Rightarrow> Some (r, st\<lparr>symbols := tab\<rparr>, [])))
                       | Inl err \<Rightarrow> Some (Inl err, st, []))
                  else if is_app_of expr Z3_OP_UNINTERPRETED then
                    (case get_symbol (symbols st) (z3_name expr) of
                       Inl err \<Rightarrow> Some (Inl err, st, [])
                     | Inr fsymbol \<Rightarrow> Some (Inr (FFunction fsymbol args), st, []))
                  else Some (Inl (ConvertExpressionError Unsupported_expression (Native_expr expr)),
                             st, []))))"

text \<open>The last line of \<^verbatim>\<open>back\<close>: the memo entry of the term that was asked for.\<close>

definition back_result :: "z3_ast \<Rightarrow> z3_model option \<Rightarrow> unit outcome \<Rightarrow> fnode outcome" where
  "back_result expr model r =
     (case r of
        None \<Rightarrow> None
      | Some (Inl err, st', tr) \<Rightarrow> Some (Inl err, st', tr)
      | Some (Inr u, st', tr) \<Rightarrow>
          (case back_memoization st' (expr, model) of
             None \<Rightarrow> Some (Inl KeyError, st', tr)
           | Some None \<Rightarrow> Some (Inl TypeError, st', tr)
           | Some (Some v) \<Rightarrow> Some (Inr v, st', tr)))"

text \<open>
  The \<^verbatim>\<open>while\<close> loop of \<^verbatim>\<open>Z3Converter.back\<close>. The head of \<open>stack\<close> is the top of
  the Python stack. Every iteration, and every nested call of \<^verbatim>\<open>back\<close>, takes one
  unit of fuel.
\<close>

primrec back_loop ::
    "nat \<Rightarrow> (fnode \<Rightarrow> ptype) \<Rightarrow> z3_model option \<Rightarrow> z3_ast list \<Rightarrow> cstate \<Rightarrow> unit outcome"
where
  "back_loop 0 stc model stack st = None"
| "back_loop (Suc n) stc model stack st =
     (case stack of
        [] \<Rightarrow> Some (Inr (), st, [])
      | current # rest \<Rightarrow>
     (let key = (current, model) in
      case back_memoization st key of
        None \<Rightarrow>
          (let st' = st\<lparr>back_memoization := (back_memoization st)(key \<mapsto> None)\<rparr> in
           if is_expr current
           then back_loop n stc model (rev (children current) @ current # rest) st'
           else Some (Inl AttributeError, st', []))
      | Some None \<Rightarrow>
          (case read_args (back_memoization st) model (children current) of
             Inl err \<Rightarrow> Some (Inl err, st, [])
           | Inr args \<Rightarrow>
               (case back_single_term
                       (\<lambda>e md s. back_result e md (back_loop n stc md [e] s))
                       stc current args model st of
                  None \<Rightarrow> None
                | Some (Inl err, st1, tr1) \<Rightarrow> Some (Inl err, st1, key # tr1)
                | Some (Inr res, st1, tr1) \<Rightarrow>
                    (case back_loop n stc model rest
                            (st1\<lparr>back_memoization := (back_memoization st1)(key \<mapsto> Some res)\<rparr>) of
                       None \<Rightarrow> None
                     | Some (r, st2, tr2) \<Rightarrow> Some (r, st2, key # tr1 @ tr2))))
      | Some (Some v) \<Rightarrow> back_loop n stc model rest st))"

text \<open>\<^verbatim>\<open>Z3Converter.back\<close>.\<close>

definition z3_back :: "nat \<Rightarrow> (fnode \<Rightarrow> ptype) \<Rightarrow> z3_ast \<Rightarrow> z3_model option \<Rightarrow> cstate \<Rightarrow> fnode outcome" where
  "z3_back n stc expr model st = back_result expr model (back_loop n stc model [expr] st)"

section \<open>The incremental solver session\<close>

subsection \<open>Environment and engine\<close>

text \<open>
  The collaborators of the environment that the session consults: the type-inference
  oracle, the simplifier of formulas and the logic classifier. They are parameters.
  Of the logic of a formula the code only asks whether it is within \<^verbatim>\<open>LRA\<close> and
  whether it is within \<^verbatim>\<open>LIA\<close> (\<^verbatim>\<open>logic <= LRA\<close>, \<^verbatim>\<open>logic <= LIA\<close>).
\<close>

record logic =
  le_LRA :: bool
  le_LIA :: bool

record environment =
  stc_get_type :: "fnode \<Rightarrow> ptype"
  simplify :: "fnode \<Rightarrow> fnode"
  get_logic :: "fnode \<Rightarrow> logic"

text \<open>
  An assertion held by the engine's solver object: asserted plainly (\<^verbatim>\<open>add\<close>) or
  under an indicator (\<^verbatim>\<open>assert_and_track\<close>).
\<close>

datatype z3_entry = Asserted z3_ast | Tracked z3_ast z3_ast

datatype check_sat_result = sat | unsat | unknown

text \<open>
  The engine is a black box: its answers are functions of what it holds, given as
  parameters. \<open>z3_model_interps\<close> is \<open>None\<close> when the engine has no model.
\<close>

record z3_engine =
  z3_check :: "z3_entry list list \<Rightarrow> z3_ast list \<Rightarrow> check_sat_result"
  z3_unsat_core :: "z3_entry list list \<Rightarrow> z3_ast list"
  z3_model_interps :: "z3_entry list list \<Rightarrow> (string \<times> func_interp) list option"
  z3_eval :: "z3_model \<Rightarrow> z3_ast \<Rightarrow> bool \<Rightarrow> z3_ast"
  z3_qe :: "z3_ast \<Rightarrow> z3_ast"

subsection \<open>The state of a session\<close>

text \<open>What \<^verbatim>\<open>_add_assertion\<close> returns: the formula, or the triple of a tracked assertion.\<close>

datatype tracked = Plain fnode | Triple fnode "string option" fnode

text \<open>\<^verbatim>\<open>last_result\<close>: \<^verbatim>\<open>True\<close>, \<^verbatim>\<open>False\<close> or the string \<^verbatim>\<open>"unknown"\<close>.\<close>

datatype solve_result = Result bool | Unknown_result

record solver =
  conv :: cstate
  z3_base :: "z3_entry list"
  z3_scopes :: "z3_entry list list"
  unsat_cores_mode :: "string option"
  pending_pop :: bool
  last_result :: "solve_result option"
  last_command :: "string option"
  assertion_stack :: "tracked list"
  backtrack_points :: "nat list"
  named_assertions :: "(fnode \<times> string option \<times> fnode) list"
  model_count :: nat

type_synonym 'a session = "(error + 'a) \<times> solver"

subsection \<open>Fresh symbols\<close>

text \<open>Python's \<^verbatim>\<open>"%d" % n\<close> for a natural number.\<close>

fun string_of_nat :: "nat \<Rightarrow> string" where
  "string_of_nat n =
     (if n < 10 then [char_of (48 + n)]
      else string_of_nat (n div 10) @ [char_of (48 + n mod 10)])"

declare string_of_nat.simps [simp del]

text \<open>
  Modelled from the spec: \<^verbatim>\<open>FreshSymbol\<close> of the formula manager, whose code is outside
  this file. It allocates a fresh symbol: the first name of the template, counting
  from 0, that the symbol table does not hold, declared with the Boolean type.
\<close>

function fresh_count :: "(nat \<Rightarrow> string) \<Rightarrow> nat \<Rightarrow> string list \<Rightarrow> nat" where
  "fresh_count template count names =
     (if template count \<in> set names
      then fresh_count template (Suc count) (removeAll (template count) names)
      else count)"
  by pat_completeness auto
termination
  by (relation "measure (\<lambda>(template, count, names). length names)")
     (auto intro: length_removeAll_less)

definition FreshSymbol :: "symtab \<Rightarrow> (nat \<Rightarrow> string) \<Rightarrow> fnode \<times> symtab" where
  "FreshSymbol tab template =
     (let name = template (fresh_count template 0 (map fst tab))
      in (FSymbol name BOOL, tab @ [(name, BOOL)]))"

definition assertion_template :: "nat \<Rightarrow> string" where
  "assertion_template n = ''_assertion_'' @ string_of_nat n"

subsection \<open>Scopes\<close>

text \<open>
  What the engine holds: the scopes that were pushed, the innermost first, above the
  assertions made outside any scope.
\<close>

definition z3_frames :: "solver \<Rightarrow> z3_entry list list" where
  "z3_frames s = z3_scopes s @ [z3_base s]"

definition z3_push :: "solver \<Rightarrow> solver" where
  "z3_push s = s\<lparr>z3_scopes := [] # z3_scopes s\<rparr>"

text \<open>The engine refuses to pop when no scope was pushed.\<close>

definition z3_pop :: "solver \<Rightarrow> error + solver" where
  "z3_pop s =
     (case z3_scopes s of
        [] \<Rightarrow> Inl Z3Exception
      | f # fs \<Rightarrow> Inr (s\<lparr>z3_scopes := fs\<rparr>))"

definition z3_add :: "z3_entry \<Rightarrow> solver \<Rightarrow> solver" where
  "z3_add e s =
     (case z3_scopes s of
        [] \<Rightarrow> s\<lparr>z3_base := z3_base s @ [e]\<rparr>
      | f # fs \<Rightarrow> s\<lparr>z3_scopes := (f @ [e]) # fs\<rparr>)"

text \<open>The bodies of \<^verbatim>\<open>Z3Solver._push\<close> and \<^verbatim>\<open>Z3Solver._pop\<close>.\<close>

fun push_levels :: "nat \<Rightarrow> solver \<Rightarrow> solver" where
  "push_levels 0 s = s"
| "push_levels (Suc n) s = push_levels n (z3_push s)"

fun pop_levels :: "nat \<Rightarrow> solver \<Rightarrow> unit session" where
  "pop_levels 0 s = (Inr (), s)"
| "pop_levels (Suc n) s =
     (case z3_pop s of Inl err \<Rightarrow> (Inl err, s) | Inr s' \<Rightarrow> pop_levels n s')"

text \<open>
  Modelled from the spec: the bookkeeping of \<^verbatim>\<open>push\<close> and \<^verbatim>\<open>pop\<close> in the tracking
  solver that \<^verbatim>\<open>Z3Solver\<close> extends, whose code is outside this file. \<^verbatim>\<open>push\<close> records
  the height of the assertion stack once per level; \<^verbatim>\<open>pop\<close> cuts the assertion stack
  back to the height recorded last, once per level. Both adjust the scope depth by
  exactly the number of levels, and set \<^verbatim>\<open>last_command\<close>.
\<close>

fun backtrack :: "nat \<Rightarrow> solver \<Rightarrow> unit session" where
  "backtrack 0 s = (Inr (), s)"
| "backtrack (Suc n) s =
     (case backtrack_points s of
        [] \<Rightarrow> (Inl IndexError, s)
      | p # ps \<Rightarrow>
          backtrack n (s\<lparr>backtrack_points := butlast (p # ps),
                          assertion_stack := take (last (p # ps)) (assertion_stack s)\<rparr>))"

definition pop_after_clear :: "nat \<Rightarrow> solver \<Rightarrow> unit session" where
  "pop_after_clear levels s =
     (case pop_levels levels s of
        (Inl err, s1) \<Rightarrow> (Inl err, s1)
      | (Inr u, s1) \<Rightarrow>
          (case backtrack levels s1 of
             (Inl err, s2) \<Rightarrow> (Inl err, s2)
           | (Inr u, s2) \<Rightarrow> (Inr (), s2\<lparr>last_command := Some ''pop''\<rparr>)))"

text \<open>
  Modelled from the spec: the decorator \<^verbatim>\<open>clear_pending_pop\<close>, whose code is outside
  this file. Before the body of a mutating method runs, a pending deferred pop is
  discharged: the mark is cleared and \<^verbatim>\<open>self.pop()\<close> is called. That call runs the
  decorated \<^verbatim>\<open>_pop\<close> again, whose decorator then finds no mark.
\<close>

definition clear_pending_pop :: "solver \<Rightarrow> unit session" where
  "clear_pending_pop s =
     (if pending_pop s then pop_after_clear 1 (s\<lparr>pending_pop := False\<rparr>)
      else (Inr (), s))"

definition solver_pop :: "nat \<Rightarrow> solver \<Rightarrow> unit session" where
  "solver_pop levels s =
     (case clear_pending_pop s of
        (Inl err, s1) \<Rightarrow> (Inl err, s1)
      | (Inr u, s1) \<Rightarrow> pop_after_clear levels s1)"

definition solver_push :: "nat \<Rightarrow> solver \<Rightarrow> unit session" where
  "solver_push levels s =
     (case clear_pending_pop s of
        (Inl err, s1) \<Rightarrow> (Inl err, s1)
      | (Inr u, s1) \<Rightarrow>
          (let s2 = push_levels levels s1;
               point = length (assertion_stack s2)
           in (Inr (), s2\<lparr>backtrack_points := backtrack_points s2 @ replicate levels point,
                           last_command := Some ''push''\<rparr>)))"

subsection \<open>Assertions\<close>

text \<open>
  Modelled from the spec: \<^verbatim>\<open>_assert_is_boolean\<close> of the base solver, whose code is
  outside this file: an assertion must be Boolean-typed.
\<close>

definition assert_is_boolean :: "environment \<Rightarrow> fnode \<Rightarrow> error + unit" where
  "assert_is_boolean env formula =
     (if stc_get_type env formula = BOOL then Inr () else Inl PysmtTypeError)"

text \<open>\<^verbatim>\<open>Z3Solver._add_assertion\<close>, under its decorator.\<close>

definition add_assertion_body ::
  "environment \<Rightarrow> fnode \<Rightarrow> string option \<Rightarrow> solver \<Rightarrow> tracked session" where
  "add_assertion_body env formula named s =
     (case assert_is_boolean env formula of
        Inl err \<Rightarrow> (Inl err, s)
      | Inr u \<Rightarrow>
          (case convert (stc_get_type env) formula of
             Inl err \<Rightarrow> (Inl err, s)
           | Inr term \<Rightarrow>
               if named \<noteq> None \<and> unsat_cores_mode s \<noteq> None then
                 (case FreshSymbol (symbols (conv s)) assertion_template of
                    (key, tab) \<Rightarrow>
                      (let s1 = s\<lparr>conv := (conv s)\<lparr>symbols := tab\<rparr>\<rparr> in
                       case convert (stc_get_type env) key of
                         Inl err \<Rightarrow> (Inl err, s1)
                       | Inr tkey \<Rightarrow>
                           (Inr (Triple key named formula), z3_add (Tracked term tkey) s1)))
               else (Inr (Plain formula), z3_add (Asserted term) s)))"

definition add_assertion_inner ::
  "environment \<Rightarrow> fnode \<Rightarrow> string option \<Rightarrow> solver \<Rightarrow> tracked session" where
  "add_assertion_inner env formula named s =
     (case clear_pending_pop s of
        (Inl err, s1) \<Rightarrow> (Inl err, s1)
      | (Inr u, s1) \<Rightarrow> add_assertion_body env formula named s1)"

text \<open>
  Modelled from the spec: \<^verbatim>\<open>add_assertion\<close> of the tracking solver, whose code is
  outside this file. It appends what \<^verbatim>\<open>_add_assertion\<close> returns to the assertion
  stack, records the triple of a tracked assertion among the named assertions (which
  are never removed on pop), and sets \<^verbatim>\<open>last_command\<close>.
\<close>

definition record_named :: "tracked \<Rightarrow> solver \<Rightarrow> solver" where
  "record_named t s =
     (case t of
        Plain f \<Rightarrow> s
      | Triple key named f \<Rightarrow> s\<lparr>named_assertions := named_assertions s @ [(key, named, f)]\<rparr>)"

definition add_assertion ::
  "environment \<Rightarrow> fnode \<Rightarrow> string option \<Rightarrow> solver \<Rightarrow> unit session" where
  "add_assertion env formula named s =
     (case add_assertion_inner env formula named s of
        (Inl err, s1) \<Rightarrow> (Inl err, s1)
      | (Inr t, s1) \<Rightarrow>
          (Inr (), (record_named t s1)\<lparr>assertion_stack := assertion_stack s1 @ [t],
                                        last_command := Some ''assert''\<rparr>))"


subsection \<open>Solving\<close>

text \<open>
  Modelled from the spec: \<^verbatim>\<open>is_literal\<close> of a formula node, whose code is outside this
  file: a literal is a Boolean symbol or the negation of one.
\<close>

definition is_bool_symbol :: "fnode \<Rightarrow> bool" where
  "is_bool_symbol f = (case f of FSymbol name tp \<Rightarrow> tp = BOOL | _ \<Rightarrow> False)"

definition is_literal :: "fnode \<Rightarrow> bool" where
  "is_literal f =
     (if is_bool_symbol f then True
      else (case f of
              FNode opr fargs payload \<Rightarrow>
                opr = NOT \<and> (case fargs of [] \<Rightarrow> False | a # _ \<Rightarrow> is_bool_symbol a)
            | _ \<Rightarrow> False))"

text \<open>The loop of \<^verbatim>\<open>_solve\<close> that splits the assumptions.\<close>

fun partition_assumptions ::
  "environment \<Rightarrow> fnode list \<Rightarrow> z3_ast list \<Rightarrow> fnode list \<Rightarrow> error + z3_ast list \<times> fnode list" where
  "partition_assumptions env [] bool_ass other_ass = Inr (bool_ass, other_ass)"
| "partition_assumptions env (x # xs) bool_ass other_ass =
     (if is_literal x then
        (case convert (stc_get_type env) x of
           Inl err \<Rightarrow> Inl err
         | Inr t \<Rightarrow> partition_assumptions env xs (bool_ass @ [t]) other_ass)
      else partition_assumptions env xs bool_ass (other_ass @ [x]))"

text \<open>The temporary scope of the composite assumptions.\<close>

definition scope_assumptions :: "environment \<Rightarrow> fnode list \<Rightarrow> solver \<Rightarrow> unit session" where
  "scope_assumptions env other_ass s =
     (if length other_ass > 0 then
        (case solver_push 1 s of
           (Inl err, s1) \<Rightarrow> (Inl err, s1)
         | (Inr u, s1) \<Rightarrow>
             (case add_assertion env (FNode AND other_ass []) None s1 of
                (Inl err, s2) \<Rightarrow> (Inl err, s2)
              | (Inr u, s2) \<Rightarrow> (Inr (), s2\<lparr>pending_pop := True\<rparr>)))
      else (Inr (), s))"

definition check_answer :: "check_sat_result \<Rightarrow> error + bool" where
  "check_answer res =
     (if res = unknown then Inl SolverReturnedUnknownResultError else Inr (res = sat))"

text \<open>\<^verbatim>\<open>Z3Solver._solve\<close>, under its decorator.\<close>

definition solve_body ::
  "z3_engine \<Rightarrow> environment \<Rightarrow> fnode list option \<Rightarrow> solver \<Rightarrow> bool session" where
  "solve_body eng env assumptions s =
     (case assumptions of
        None \<Rightarrow> (check_answer (z3_check eng (z3_frames s) []), s)
      | Some ass \<Rightarrow>
          (case partition_assumptions env ass [] [] of
             Inl err \<Rightarrow> (Inl err, s)
           | Inr (bool_ass, other_ass) \<Rightarrow>
               (case scope_assumptions env other_ass s of
                  (Inl err, s1) \<Rightarrow> (Inl err, s1)
                | (Inr u, s1) \<Rightarrow> (check_answer (z3_check eng (z3_frames s1) bool_ass), s1))))"

definition solve_inner ::
  "z3_engine \<Rightarrow> environment \<Rightarrow> fnode list option \<Rightarrow> solver \<Rightarrow> bool session" where
  "solve_inner eng env assumptions s =
     (case clear_pending_pop s of
        (Inl err, s1) \<Rightarrow> (Inl err, s1)
      | (Inr u, s1) \<Rightarrow> solve_body eng env assumptions s1)"

text \<open>
  Modelled from the spec: \<^verbatim>\<open>solve\<close> of the tracking solver, whose code is outside this
  file. It records the result of \<^verbatim>\<open>_solve\<close> (the string \<^verbatim>\<open>"unknown"\<close> when that
  raised the unknown-result error, which is raised again) and sets \<^verbatim>\<open>last_command\<close>
  in every case.
\<close>

definition solve ::
  "z3_engine \<Rightarrow> environment \<Rightarrow> fnode list option \<Rightarrow> solver \<Rightarrow> bool session" where
  "solve eng env assumptions s =
     (case solve_inner eng env assumptions s of
        (Inr res, s1) \<Rightarrow>
          (Inr res, s1\<lparr>last_result := Some (Result res), last_command := Some ''solve''\<rparr>)
      | (Inl err, s1) \<Rightarrow>
          if err = SolverReturnedUnknownResultError
          then (Inl err, s1\<lparr>last_result := Some Unknown_result, last_command := Some ''solve''\<rparr>)
          else (Inl err, s1\<lparr>last_command := Some ''solve''\<rparr>))"

subsection \<open>Unsat cores\<close>






subsection \<open>Values\<close>

text \<open>\<^verbatim>\<open>is_constant\<close> of a formula node: the node is one of the constant nodes.\<close>

fun is_constant :: "fnode \<Rightarrow> bool" where
  "is_constant (FBool b) = True"
| "is_constant (FInt v) = True"
| "is_constant (FReal q) = True"
| "is_constant (FBV v w) = True"
| "is_constant (FString v) = True"
| "is_constant (FAlgebraic v) = True"
| "is_constant f = False"

text \<open>\<^verbatim>\<open>self.z3.model()\<close>: a new model object on every call.\<close>

definition z3_model_of :: "z3_engine \<Rightarrow> solver \<Rightarrow> (error + z3_model) \<times> solver" where
  "z3_model_of eng s =
     (case z3_model_interps eng (z3_frames s) of
        None \<Rightarrow> (Inl Z3Exception, s)
      | Some interps \<Rightarrow>
          (Inr (Z3Model (model_count s) interps), s\<lparr>model_count := Suc (model_count s)\<rparr>))"

text \<open>\<^verbatim>\<open>Z3Solver.get_value\<close>.\<close>

definition get_value ::
  "nat \<Rightarrow> z3_engine \<Rightarrow> environment \<Rightarrow> fnode \<Rightarrow> solver \<Rightarrow> (fnode session) option" where
  "get_value fuel eng env item s =
     (case convert (stc_get_type env) item of
        Inl err \<Rightarrow> Some (Inl err, s)
      | Inr titem \<Rightarrow>
          (case z3_model_of eng s of
             (Inl err, s1) \<Rightarrow> Some (Inl err, s1)
           | (Inr m1, s1) \<Rightarrow>
               (let z3_res = z3_eval eng m1 titem True in
                case z3_model_of eng s1 of
                  (Inl err, s2) \<Rightarrow> Some (Inl err, s2)
                | (Inr m2, s2) \<Rightarrow>
                    (case z3_back fuel (stc_get_type env) z3_res (Some m2) (conv s2) of
                       None \<Rightarrow> None
                     | Some (Inl err, c3, tr) \<Rightarrow> Some (Inl err, s2\<lparr>conv := c3\<rparr>)
                     | Some (Inr res, c3, tr) \<Rightarrow>
                         Some (Inr (if \<not> is_constant res then simplify env res else res),
                               s2\<lparr>conv := c3\<rparr>)))))"

section \<open>Quantifier elimination\<close>


section \<open>A session at its creation, and an example environment\<close>

text \<open>\<^verbatim>\<open>Z3Converter.__init__\<close> and \<^verbatim>\<open>Z3Solver.__init__\<close>: nothing memoized, nothing
  asserted, no scope, no result; \<open>tab\<close> is the symbol table of the environment.\<close>

definition new_converter :: "symtab \<Rightarrow> cstate" where
  "new_converter tab = \<lparr>back_memoization = (\<lambda>k. None), symbols = tab\<rparr>"

definition new_solver :: "string option \<Rightarrow> symtab \<Rightarrow> solver" where
  "new_solver mode tab =
     \<lparr>conv = new_converter tab, z3_base = [], z3_scopes = [],
      unsat_cores_mode = mode, pending_pop = False,
      last_result = None, last_command = None,
      assertion_stack = [], backtrack_points = [],
      named_assertions = [], model_count = 0\<rparr>"

text \<open>
  Modelled from the spec: a type-inference oracle \<^verbatim>\<open>get_type\<close>, used for the
  examples. The type of a node is fixed by its operator, or is the type of one of its
  arguments.
\<close>

definition node_type :: "node_op \<Rightarrow> ptype list \<Rightarrow> ptype" where
  "node_type opr tps =
     (if opr \<in> {AND, OR, NOT, IMPLIES, IFF, XOR, EQUALS, GT, GE, LT, LE,
                 BV_ULT, BV_ULE, BV_SLT, BV_SLE, BV_UGT, BV_UGE, BV_SGT, BV_SGE} then BOOL
      else if opr = TOREAL then REAL
      else if opr = BV_TONATURAL then INT_TYPE
      else if opr = BV_COMP then BVType 1
      else if opr = ITE then (case tps of c # t # _ \<Rightarrow> t | _ \<Rightarrow> BOOL)
      else if opr = ARRAY_SELECT then
        (case tps of ArrayType i e # _ \<Rightarrow> e | _ \<Rightarrow> BOOL)
      else (case tps of t # _ \<Rightarrow> t | _ \<Rightarrow> BOOL))"

fun get_type :: "fnode \<Rightarrow> ptype" where
  "get_type (FSymbol name tp) = tp"
| "get_type (FBool b) = BOOL"
| "get_type (FInt v) = INT_TYPE"
| "get_type (FReal q) = REAL"
| "get_type (FBV v w) = BVType w"
| "get_type (FString v) = STRING"
| "get_type (FAlgebraic v) = REAL"
| "get_type (FNode opr fargs payload) = node_type opr (map get_type fargs)"
| "get_type (FArray idx dflt assign) = ArrayType idx (get_type dflt)"
| "get_type (FFunction f fargs) =
     (case get_type f of FunctionType r ps \<Rightarrow> r | tp \<Rightarrow> tp)"
| "get_type (FQuantifier fa qvars body) = BOOL"

definition example_env :: environment where
  "example_env =
     \<lparr>stc_get_type = get_type, simplify = (\<lambda>f. f),
      get_logic = (\<lambda>f. \<lparr>le_LRA = False, le_LIA = True\<rparr>)\<rparr>"

text \<open>An engine that answers \<open>r\<close> to every check, for the examples.\<close>

definition example_engine :: "check_sat_result \<Rightarrow> z3_engine" where
  "example_engine r =
     \<lparr>z3_check = (\<lambda>frames assumptions. r),
      z3_unsat_core = (\<lambda>frames. []),
      z3_model_interps = (\<lambda>frames. Some []),
      z3_eval = (\<lambda>m t completion. t),
      z3_qe = (\<lambda>t. t)\<rparr>"

section \<open>Example formulas\<close>

text \<open>An uninterpreted function of three integer arguments, applied to three integer
  symbols, and the symbol table that declares them.\<close>

definition example_function :: fnode where
  "example_function = FSymbol ''f'' (FunctionType INT_TYPE [INT_TYPE, INT_TYPE, INT_TYPE])"

definition example_application :: fnode where
  "example_application =
     FFunction example_function
       [FSymbol ''x'' INT_TYPE, FSymbol ''y'' INT_TYPE, FSymbol ''z'' INT_TYPE]"

definition example_symbols :: symtab where
  "example_symbols =
     [(''f'', FunctionType INT_TYPE [INT_TYPE, INT_TYPE, INT_TYPE]),
      (''x'', INT_TYPE), (''y'', INT_TYPE), (''z'', INT_TYPE)]"

text \<open>Forward conversion followed by backward conversion, on a new converter.\<close>

definition round_trip :: "nat \<Rightarrow> (fnode \<Rightarrow> ptype) \<Rightarrow> symtab \<Rightarrow> fnode \<Rightarrow> (error + fnode) option" where
  "round_trip fuel stc tab formula =
     (case convert stc formula of
        Inl err \<Rightarrow> Some (Inl err)
      | Inr term \<Rightarrow> map_option fst (z3_back fuel stc term None (new_converter tab)))"











section \<open>Properties\<close>

subsection \<open>Boolean if-then-else in forward conversion\<close>

text \<open>
  Claim C3. For an if-then-else formula \<open>Ite(i, t, e)\<close> whose static type is Boolean,
  forward conversion does not produce a native ternary term: it produces the native
  conjunction of the two disjunctions \<open>(\<not> i \<or> t)\<close> and \<open>(i \<or> e)\<close> over the converted
  arguments; an if-then-else of any other type is lowered to the native ternary.
\<close>

theorem walk_ite_boolean_rewrite:
  assumes "walk stc i = Inr zi" and "walk stc t = Inr zt" and "walk stc e = Inr ze"
  shows "(stc (FNode ITE [i, t, e] payload) = BOOL \<longrightarrow>
            convert stc (FNode ITE [i, t, e] payload) =
              Inr (Z3_mk_and [Z3_mk_or [Z3_mk_not zi, zt], Z3_mk_or [zi, ze]])) \<and>
         (stc (FNode ITE [i, t, e] payload) \<noteq> BOOL \<longrightarrow>
            convert stc (FNode ITE [i, t, e] payload) = Inr (Z3_mk_ite zi zt ze))"
  using assms
  by (simp add: convert_def walk_op_def walk_ite_def walk_not_def arg_def)

theorem walk_ite_boolean_rewrite_witness:
  "convert (\<lambda>f. BOOL) (FNode ITE [FSymbol ''c'' BOOL, FSymbol ''p'' BOOL, FSymbol ''q'' BOOL] []) =
     Inr (Z3_mk_and [Z3_mk_or [Z3_mk_not (Z3_mk_const ''c'' Z3_BOOL_SORT), Z3_mk_const ''p'' Z3_BOOL_SORT],
                     Z3_mk_or [Z3_mk_const ''c'' Z3_BOOL_SORT, Z3_mk_const ''q'' Z3_BOOL_SORT]]) \<and>
   convert (\<lambda>f. INT_TYPE) (FNode ITE [FSymbol ''c'' BOOL, FInt 1, FInt 2] []) =
     Inr (Z3_mk_ite (Z3_mk_const ''c'' Z3_BOOL_SORT) (Z3_mk_numeral 1 1 Z3_INT_SORT) (Z3_mk_numeral 2 1 Z3_INT_SORT))"
proof -
  have c: "walk (\<lambda>f. BOOL) (FSymbol ''c'' BOOL) = Inr (Z3_mk_const ''c'' Z3_BOOL_SORT)"
    and p: "walk (\<lambda>f. BOOL) (FSymbol ''p'' BOOL) = Inr (Z3_mk_const ''p'' Z3_BOOL_SORT)"
    and q: "walk (\<lambda>f. BOOL) (FSymbol ''q'' BOOL) = Inr (Z3_mk_const ''q'' Z3_BOOL_SORT)"
    by simp_all
  have c': "walk (\<lambda>f. INT_TYPE) (FSymbol ''c'' BOOL) = Inr (Z3_mk_const ''c'' Z3_BOOL_SORT)"
    and one: "walk (\<lambda>f. INT_TYPE) (FInt 1) = Inr (Z3_mk_numeral 1 1 Z3_INT_SORT)"
    and two: "walk (\<lambda>f. INT_TYPE) (FInt 2) = Inr (Z3_mk_numeral 2 1 Z3_INT_SORT)"
    by (simp_all add: walk_int_constant_def)
  show ?thesis
    using walk_ite_boolean_rewrite [OF c p q, of "[]"] walk_ite_boolean_rewrite [OF c' one two, of "[]"]
    by simp
qed

subsection \<open>Fresh names\<close>

lemma string_of_nat_nonempty: "string_of_nat n \<noteq> []"
  by (subst string_of_nat.simps) simp

lemma digit_inj:
  assumes a: "a < 10" and b: "b < 10" and e: "(char_of (48 + a) :: char) = char_of (48 + b)"
  shows "a = (b::nat)"
proof -
  have "of_char (char_of (48 + a) :: char) = (of_char (char_of (48 + b) :: char) :: nat)"
    using e by simp
  then have "(48 + a) mod 256 = (48 + b) mod 256" by (simp only: of_char_of)
  then show ?thesis using a b by simp
qed

lemma string_of_nat_inj: "string_of_nat m = string_of_nat n \<Longrightarrow> m = n"
proof (induction m arbitrary: n rule: string_of_nat.induct)
  case (1 m)
  show ?case
  proof (cases "m < 10")
    case True
    then have lm: "string_of_nat m = [char_of (48 + m)]"
      by (subst string_of_nat.simps) simp
    show ?thesis
    proof (cases "n < 10")
      case nt: True
      then have "string_of_nat n = [char_of (48 + n)]"
        by (subst string_of_nat.simps) simp
      with lm "1.prems" have "(char_of (48 + m) :: char) = char_of (48 + n)" by simp
      then show ?thesis using digit_inj True nt by blast
    next
      case False
      then have "string_of_nat n = string_of_nat (n div 10) @ [char_of (48 + n mod 10)]"
        by (subst string_of_nat.simps) simp
      with lm "1.prems" have "string_of_nat (n div 10) = []" by simp
      then show ?thesis using string_of_nat_nonempty by blast
    qed
  next
    case False
    then have lm: "string_of_nat m = string_of_nat (m div 10) @ [char_of (48 + m mod 10)]"
      by (subst string_of_nat.simps) simp
    show ?thesis
    proof (cases "n < 10")
      case True
      then have "string_of_nat n = [char_of (48 + n)]"
        by (subst string_of_nat.simps) simp
      with lm "1.prems" have "string_of_nat (m div 10) = []" by simp
      then show ?thesis using string_of_nat_nonempty by blast
    next
      case nf: False
      then have "string_of_nat n = string_of_nat (n div 10) @ [char_of (48 + n mod 10)]"
        by (subst string_of_nat.simps) simp
      with lm "1.prems" have e1: "string_of_nat (m div 10) = string_of_nat (n div 10)"
        and e2: "(char_of (48 + m mod 10) :: char) = char_of (48 + n mod 10)" by simp_all
      from "1.IH" [OF False e1] have d: "m div 10 = n div 10" .
      from e2 have "m mod 10 = n mod 10" using digit_inj [of "m mod 10" "n mod 10"] by simp
      with d show ?thesis by (metis div_mult_mod_eq)
    qed
  qed
qed

lemma assertion_template_inj: "assertion_template m = assertion_template n \<Longrightarrow> m = n"
  by (simp add: assertion_template_def string_of_nat_inj)

declare fresh_count.simps [simp del]

lemma fresh_count_ge: "count \<le> fresh_count template count names"
proof (induction template count names rule: fresh_count.induct)
  case (1 template count names)
  show ?case
  proof (cases "template count \<in> set names")
    case True
    with 1 show ?thesis by (subst fresh_count.simps) (simp add: Suc_leD)
  next
    case False
    then show ?thesis by (subst fresh_count.simps) simp
  qed
qed

lemma fresh_count_fresh:
  "(\<And>m n. template m = template n \<Longrightarrow> m = n) \<Longrightarrow>
     template (fresh_count template count names) \<notin> set names"
proof (induction template count names rule: fresh_count.induct)
  case (1 template count names)
  show ?case
  proof (cases "template count \<in> set names")
    case True
    let ?r = "fresh_count template (Suc count) (removeAll (template count) names)"
    have eq: "fresh_count template count names = ?r"
      using True by (subst fresh_count.simps) simp
    have ih: "template ?r \<notin> set (removeAll (template count) names)"
      using "1.IH" [OF True] "1.prems" by blast
    have "Suc count \<le> ?r" by (rule fresh_count_ge)
    then have "?r \<noteq> count" by simp
    then have "template ?r \<noteq> template count" using "1.prems" by blast
    with ih have "template ?r \<notin> set names" by simp
    with eq show ?thesis by simp
  next
    case False
    then show ?thesis by (subst fresh_count.simps) simp
  qed
qed

lemma FreshSymbol_fresh:
  "\<exists>name. name \<notin> fst ` set tab \<and>
     FreshSymbol tab assertion_template = (FSymbol name BOOL, tab @ [(name, BOOL)])"
proof -
  let ?name = "assertion_template (fresh_count assertion_template 0 (map fst tab))"
  have "?name \<notin> set (map fst tab)"
    by (rule fresh_count_fresh) (rule assertion_template_inj)
  then have "?name \<notin> fst ` set tab" by simp
  then show ?thesis by (auto simp: FreshSymbol_def Let_def)
qed

subsection \<open>Tracked and untracked assertions\<close>

lemma pop_levels_keeps:
  "pop_levels n s = (r, s') \<Longrightarrow>
     unsat_cores_mode s' = unsat_cores_mode s \<and> conv s' = conv s \<and>
     named_assertions s' = named_assertions s \<and> pending_pop s' = pending_pop s \<and>
     assertion_stack s' = assertion_stack s \<and> backtrack_points s' = backtrack_points s \<and>
     z3_base s' = z3_base s"
proof (induction n arbitrary: s)
  case 0
  then show ?case by simp
next
  case (Suc n)
  show ?case
  proof (cases "z3_scopes s")
    case Nil
    with Suc.prems show ?thesis by (simp add: z3_pop_def)
  next
    case (Cons f fs)
    with Suc.prems have "pop_levels n (s\<lparr>z3_scopes := fs\<rparr>) = (r, s')"
      by (simp add: z3_pop_def)
    from Suc.IH [OF this] show ?thesis by simp
  qed
qed

lemma backtrack_keeps:
  "backtrack n s = (r, s') \<Longrightarrow>
     unsat_cores_mode s' = unsat_cores_mode s \<and> conv s' = conv s \<and>
     named_assertions s' = named_assertions s \<and> pending_pop s' = pending_pop s \<and>
     z3_scopes s' = z3_scopes s \<and> z3_base s' = z3_base s"
proof (induction n arbitrary: s)
  case 0
  then show ?case by simp
next
  case (Suc n)
  show ?case
  proof (cases "backtrack_points s")
    case Nil
    with Suc.prems show ?thesis by simp
  next
    case (Cons p ps)
    with Suc.prems have
      "backtrack n (s\<lparr>backtrack_points := butlast (p # ps),
                      assertion_stack := take (last (p # ps)) (assertion_stack s)\<rparr>) = (r, s')"
      by simp
    from Suc.IH [OF this] show ?thesis by simp
  qed
qed

lemma pop_after_clear_keeps:
  assumes "pop_after_clear n s = (r, s')"
  shows "unsat_cores_mode s' = unsat_cores_mode s \<and> conv s' = conv s \<and>
     named_assertions s' = named_assertions s \<and> pending_pop s' = pending_pop s \<and>
     z3_base s' = z3_base s"
proof -
  obtain r1 s1 where p: "pop_levels n s = (r1, s1)" by (cases "pop_levels n s")
  note k1 = pop_levels_keeps [OF p]
  show ?thesis
  proof (cases r1)
    case (Inl e)
    with assms p have "s' = s1" by (simp add: pop_after_clear_def)
    with k1 show ?thesis by simp
  next
    case (Inr u)
    obtain r2 s2 where b: "backtrack n s1 = (r2, s2)" by (cases "backtrack n s1")
    note k2 = backtrack_keeps [OF b]
    show ?thesis
    proof (cases r2)
      case (Inl e)
      with assms p b Inr have "s' = s2" by (simp add: pop_after_clear_def)
      with k1 k2 show ?thesis by simp
    next
      case r2: (Inr u2)
      with assms p b Inr have "s' = s2\<lparr>last_command := Some ''pop''\<rparr>"
        by (simp add: pop_after_clear_def)
      with k1 k2 show ?thesis by simp
    qed
  qed
qed

lemma clear_pending_pop_keeps:
  assumes "clear_pending_pop s = (r, s')"
  shows "unsat_cores_mode s' = unsat_cores_mode s \<and> conv s' = conv s \<and>
     named_assertions s' = named_assertions s \<and> z3_base s' = z3_base s"
proof (cases "pending_pop s")
  case True
  with assms have "pop_after_clear 1 (s\<lparr>pending_pop := False\<rparr>) = (r, s')"
    by (simp add: clear_pending_pop_def)
  from pop_after_clear_keeps [OF this] show ?thesis by simp
next
  case False
  with assms show ?thesis by (simp add: clear_pending_pop_def)
qed

lemma convert_bool_symbol:
  "convert stc (FSymbol name BOOL) = Inr (Z3_mk_const name Z3_BOOL_SORT)"
  by (simp add: convert_def)

lemma z3_add_keeps:
  "named_assertions (z3_add e s) = named_assertions s \<and>
   assertion_stack (z3_add e s) = assertion_stack s \<and>
   unsat_cores_mode (z3_add e s) = unsat_cores_mode s \<and>
   conv (z3_add e s) = conv s \<and> pending_pop (z3_add e s) = pending_pop s \<and>
   backtrack_points (z3_add e s) = backtrack_points s"
  by (simp add: z3_add_def split: list.splits)

text \<open>
  Claim C2, as amended. On a session with unsat-core tracking enabled, a call
  \<open>add_assertion(f, name)\<close> with a user-supplied name allocates a fresh indicator
  symbol (one that the symbol table did not hold), asserts \<open>f\<close> to the engine tracked
  under that indicator and records the triple (indicator, name, \<open>f\<close>); when tracking
  is disabled, \<open>f\<close> is asserted directly, without an indicator, and nothing is
  recorded. (The claim as stated also promises tracking for a call without a name;
  the counterexample below shows that such a call asserts \<open>f\<close> directly.)
\<close>

theorem add_assertion_tracks_named:
  assumes clear: "clear_pending_pop s = (Inr (), s1)"
      and bool: "stc_get_type env formula = BOOL"
      and conv: "convert (stc_get_type env) formula = Inr term"
  shows "(unsat_cores_mode s \<noteq> None \<longrightarrow>
            (\<exists>name. name \<notin> fst ` set (symbols (conv s)) \<and>
               add_assertion_inner env formula (Some nm) s =
                 (Inr (Triple (FSymbol name BOOL) (Some nm) formula),
                  z3_add (Tracked term (Z3_mk_const name Z3_BOOL_SORT))
                    (s1\<lparr>conv := (conv s1)\<lparr>symbols := symbols (conv s) @ [(name, BOOL)]\<rparr>\<rparr>)) \<and>
               named_assertions (snd (add_assertion env formula (Some nm) s)) =
                 named_assertions s @ [(FSymbol name BOOL, Some nm, formula)])) \<and>
         (unsat_cores_mode s = None \<longrightarrow>
            add_assertion_inner env formula named s =
              (Inr (Plain formula), z3_add (Asserted term) s1) \<and>
            named_assertions (snd (add_assertion env formula named s)) = named_assertions s)"
proof -
  note k = clear_pending_pop_keeps [OF clear]
  have tracked: "\<exists>name. name \<notin> fst ` set (symbols (conv s)) \<and>
               add_assertion_inner env formula (Some nm) s =
                 (Inr (Triple (FSymbol name BOOL) (Some nm) formula),
                  z3_add (Tracked term (Z3_mk_const name Z3_BOOL_SORT))
                    (s1\<lparr>conv := (conv s1)\<lparr>symbols := symbols (conv s) @ [(name, BOOL)]\<rparr>\<rparr>)) \<and>
               named_assertions (snd (add_assertion env formula (Some nm) s)) =
                 named_assertions s @ [(FSymbol name BOOL, Some nm, formula)]"
    if mode: "unsat_cores_mode s \<noteq> None"
  proof -
    obtain name where fresh: "name \<notin> fst ` set (symbols (conv s))"
      and fs: "FreshSymbol (symbols (conv s)) assertion_template =
                 (FSymbol name BOOL, symbols (conv s) @ [(name, BOOL)])"
      using FreshSymbol_fresh [of "symbols (conv s)"] by blast
    have inner: "add_assertion_inner env formula (Some nm) s =
                 (Inr (Triple (FSymbol name BOOL) (Some nm) formula),
                  z3_add (Tracked term (Z3_mk_const name Z3_BOOL_SORT))
                    (s1\<lparr>conv := (conv s1)\<lparr>symbols := symbols (conv s) @ [(name, BOOL)]\<rparr>\<rparr>))"
      using clear bool conv mode k fs
      by (simp add: add_assertion_inner_def add_assertion_body_def assert_is_boolean_def
                    convert_bool_symbol Let_def)
    have "named_assertions (snd (add_assertion env formula (Some nm) s)) =
                 named_assertions s @ [(FSymbol name BOOL, Some nm, formula)]"
      using inner k by (simp add: add_assertion_def record_named_def z3_add_keeps)
    with fresh inner show ?thesis by blast
  qed
  have plain: "add_assertion_inner env formula named s =
              (Inr (Plain formula), z3_add (Asserted term) s1) \<and>
            named_assertions (snd (add_assertion env formula named s)) = named_assertions s"
    if mode: "unsat_cores_mode s = None"
  proof -
    have inner: "add_assertion_inner env formula named s =
              (Inr (Plain formula), z3_add (Asserted term) s1)"
      using clear bool conv mode k
      by (simp add: add_assertion_inner_def add_assertion_body_def assert_is_boolean_def)
    then show ?thesis using k by (simp add: add_assertion_def record_named_def z3_add_keeps)
  qed
  from tracked plain show ?thesis by blast
qed

theorem add_assertion_unnamed_counterexample:
  "unsat_cores_mode (new_solver (Some ''named'') []) \<noteq> None \<and>
   add_assertion_inner example_env (FSymbol ''a'' BOOL) None (new_solver (Some ''named'') []) =
     (Inr (Plain (FSymbol ''a'' BOOL)),
      (new_solver (Some ''named'') [])\<lparr>z3_base := [Asserted (Z3_mk_const ''a'' Z3_BOOL_SORT)]\<rparr>) \<and>
   named_assertions (snd (add_assertion example_env (FSymbol ''a'' BOOL) None
                            (new_solver (Some ''named'') []))) = []"
  by (simp add: add_assertion_def add_assertion_inner_def add_assertion_body_def
        clear_pending_pop_def new_solver_def example_env_def assert_is_boolean_def
        convert_def z3_add_def record_named_def)

theorem add_assertion_tracks_named_witness:
  "(\<exists>name. name \<notin> fst ` set (symbols (conv (new_solver (Some ''named'') []))) \<and>
      add_assertion_inner example_env (FSymbol ''a'' BOOL) (Some ''n1'') (new_solver (Some ''named'') []) =
        (Inr (Triple (FSymbol name BOOL) (Some ''n1'') (FSymbol ''a'' BOOL)),
         z3_add (Tracked (Z3_mk_const ''a'' Z3_BOOL_SORT) (Z3_mk_const name Z3_BOOL_SORT))
           ((new_solver (Some ''named'') [])
              \<lparr>conv := (conv (new_solver (Some ''named'') []))\<lparr>symbols := [(name, BOOL)]\<rparr>\<rparr>))) \<and>
   add_assertion_inner example_env (FSymbol ''a'' BOOL) (Some ''n1'') (new_solver None []) =
     (Inr (Plain (FSymbol ''a'' BOOL)),
      z3_add (Asserted (Z3_mk_const ''a'' Z3_BOOL_SORT)) (new_solver None []))"
proof -
  have c1: "clear_pending_pop (new_solver (Some ''named'') []) = (Inr (), new_solver (Some ''named'') [])"
    and c2: "clear_pending_pop (new_solver None []) = (Inr (), new_solver None [])"
    by (simp_all add: clear_pending_pop_def new_solver_def)
  have b: "stc_get_type example_env (FSymbol ''a'' BOOL) = BOOL"
    by (simp add: example_env_def)
  have c: "convert (stc_get_type example_env) (FSymbol ''a'' BOOL) = Inr (Z3_mk_const ''a'' Z3_BOOL_SORT)"
    by (simp add: convert_def)
  have m1: "unsat_cores_mode (new_solver (Some ''named'') []) \<noteq> None"
    and m2: "unsat_cores_mode (new_solver None []) = None"
    and sy: "symbols (conv (new_solver (Some ''named'') [])) = []"
    by (simp_all add: new_solver_def new_converter_def)
  from add_assertion_tracks_named [OF c1 b c, of "''n1''" None] m1 sy
  have t1: "\<exists>name. name \<notin> fst ` set (symbols (conv (new_solver (Some ''named'') []))) \<and>
      add_assertion_inner example_env (FSymbol ''a'' BOOL) (Some ''n1'') (new_solver (Some ''named'') []) =
        (Inr (Triple (FSymbol name BOOL) (Some ''n1'') (FSymbol ''a'' BOOL)),
         z3_add (Tracked (Z3_mk_const ''a'' Z3_BOOL_SORT) (Z3_mk_const name Z3_BOOL_SORT))
           ((new_solver (Some ''named'') [])
              \<lparr>conv := (conv (new_solver (Some ''named'') []))\<lparr>symbols := [(name, BOOL)]\<rparr>\<rparr>))"
    by auto
  from add_assertion_tracks_named [OF c2 b c, of "''n1''" "Some ''n1''"] m2
  have t2: "add_assertion_inner example_env (FSymbol ''a'' BOOL) (Some ''n1'') (new_solver None []) =
     (Inr (Plain (FSymbol ''a'' BOOL)),
      z3_add (Asserted (Z3_mk_const ''a'' Z3_BOOL_SORT)) (new_solver None []))"
    by simp
  from t1 t2 show ?thesis by blast
qed

subsection \<open>The outcome of a satisfiability check\<close>

lemma solve_fst:
  "fst (solve eng env assumptions s) = fst (solve_inner eng env assumptions s)"
  by (cases "solve_inner eng env assumptions s"; cases "fst (solve_inner eng env assumptions s)")
     (auto simp: solve_def)

lemma solve_inner_answer:
  assumes clear: "clear_pending_pop s = (Inr (), s1)"
      and prep: "(assumptions = None \<and> lits = [] \<and> s2 = s1) \<or>
                 (\<exists>ass other. assumptions = Some ass \<and>
                    partition_assumptions env ass [] [] = Inr (lits, other) \<and>
                    scope_assumptions env other s1 = (Inr (), s2))"
  shows "solve_inner eng env assumptions s = (check_answer (z3_check eng (z3_frames s2) lits), s2)"
  using clear prep by (auto simp: solve_inner_def solve_body_def)

text \<open>
  Claim C4. Take a call of \<open>solve\<close>, with or without assumptions, that gets as far as
  querying the engine: the pending pop is discharged, the assumptions are split into
  the literals \<open>lits\<close> and the composite ones, and the composite ones are scoped, which
  leaves the session in \<open>s2\<close>. If the engine then reports unknown, the call raises
  \<^verbatim>\<open>SolverReturnedUnknownResultError\<close> (and records the result "unknown"); it returns
  true when the engine reports sat and false when it reports unsat, and in no other
  case.
\<close>

theorem solve_follows_engine_answer:
  assumes clear: "clear_pending_pop s = (Inr (), s1)"
      and prep: "(assumptions = None \<and> lits = [] \<and> s2 = s1) \<or>
                 (\<exists>ass other. assumptions = Some ass \<and>
                    partition_assumptions env ass [] [] = Inr (lits, other) \<and>
                    scope_assumptions env other s1 = (Inr (), s2))"
  shows "(z3_check eng (z3_frames s2) lits = unknown \<longrightarrow>
            fst (solve eng env assumptions s) = Inl SolverReturnedUnknownResultError \<and>
            last_result (snd (solve eng env assumptions s)) = Some Unknown_result) \<and>
         (fst (solve eng env assumptions s) = Inr True \<longleftrightarrow>
            z3_check eng (z3_frames s2) lits = sat) \<and>
         (fst (solve eng env assumptions s) = Inr False \<longleftrightarrow>
            z3_check eng (z3_frames s2) lits = unsat)"
proof -
  note inner = solve_inner_answer [OF clear prep, of eng]
  show ?thesis
    by (cases "z3_check eng (z3_frames s2) lits")
       (simp_all add: solve_def inner check_answer_def)
qed

theorem solve_follows_engine_answer_witness:
  "fst (solve (example_engine unknown) example_env None (new_solver None [])) =
     Inl SolverReturnedUnknownResultError \<and>
   fst (solve (example_engine sat) example_env (Some [FSymbol ''a'' BOOL]) (new_solver None [])) =
     Inr True \<and>
   fst (solve (example_engine unsat) example_env None (new_solver None [])) = Inr False"
proof -
  let ?s = "new_solver None []"
  have c: "clear_pending_pop ?s = (Inr (), ?s)"
    by (simp add: clear_pending_pop_def new_solver_def)
  have p0: "((None :: fnode list option) = None \<and> ([] :: z3_ast list) = [] \<and> ?s = ?s) \<or>
            (\<exists>ass other. (None :: fnode list option) = Some ass \<and>
               partition_assumptions example_env ass [] [] = Inr ([], other) \<and>
               scope_assumptions example_env other ?s = (Inr (), ?s))"
    by simp
  have "partition_assumptions example_env [FSymbol ''a'' BOOL] [] [] =
          Inr ([Z3_mk_const ''a'' Z3_BOOL_SORT], []) \<and>
        scope_assumptions example_env [] ?s = (Inr (), ?s)"
    by (simp add: is_literal_def is_bool_symbol_def convert_def scope_assumptions_def)
  then have p1: "(Some [FSymbol ''a'' BOOL] = None \<and> [Z3_mk_const ''a'' Z3_BOOL_SORT] = [] \<and> ?s = ?s) \<or>
            (\<exists>ass other. Some [FSymbol ''a'' BOOL] = Some ass \<and>
               partition_assumptions example_env ass [] [] =
                 Inr ([Z3_mk_const ''a'' Z3_BOOL_SORT], other) \<and>
               scope_assumptions example_env other ?s = (Inr (), ?s))"
    by blast
  have e: "z3_check (example_engine r) fr li = r" for r fr li
    by (simp add: example_engine_def)
  from solve_follows_engine_answer [OF c p0, of "example_engine unknown"]
       solve_follows_engine_answer [OF c p1, of "example_engine sat"]
       solve_follows_engine_answer [OF c p0, of "example_engine unsat"]
  show ?thesis by (simp add: e)
qed

subsection \<open>The deferred pop of assumption-based solving\<close>

lemma clear_pending_pop_not_pending:
  assumes "clear_pending_pop s = (r, s')"
  shows "\<not> pending_pop s'"
proof (cases "pending_pop s")
  case True
  with assms have "pop_after_clear 1 (s\<lparr>pending_pop := False\<rparr>) = (r, s')"
    by (simp add: clear_pending_pop_def)
  from pop_after_clear_keeps [OF this] show ?thesis by simp
next
  case False
  with assms show ?thesis by (simp add: clear_pending_pop_def)
qed

lemma clear_pending_pop_idle: "\<not> pending_pop s \<Longrightarrow> clear_pending_pop s = (Inr (), s)"
  by (simp add: clear_pending_pop_def)

lemma scope_assumptions_composite:
  assumes np: "\<not> pending_pop s1"
      and comp: "other \<noteq> []"
      and bool: "stc_get_type env (FNode AND other []) = BOOL"
      and conv: "convert (stc_get_type env) (FNode AND other []) = Inr term"
  shows "scope_assumptions env other s1 =
           (Inr (), s1\<lparr>z3_scopes := [Asserted term] # z3_scopes s1,
                        backtrack_points := backtrack_points s1 @ [length (assertion_stack s1)],
                        assertion_stack := assertion_stack s1 @ [Plain (FNode AND other [])],
                        last_command := Some ''assert'',
                        pending_pop := True\<rparr>)"
  using np comp bool conv
  by (simp add: scope_assumptions_def solver_push_def clear_pending_pop_def z3_push_def
        Let_def add_assertion_def add_assertion_inner_def add_assertion_body_def
        assert_is_boolean_def z3_add_def record_named_def)

lemma discharge_scope:
  assumes "z3_scopes s' = e # sc" and "backtrack_points s' = bp @ [length st]"
      and "assertion_stack s' = st @ [x]" and "pending_pop s'"
  shows "clear_pending_pop s' =
           (Inr (), s'\<lparr>pending_pop := False, z3_scopes := sc, backtrack_points := bp,
                        assertion_stack := st, last_command := Some ''pop''\<rparr>)"
proof -
  have nonempty: "bp @ [length st] = hd (bp @ [length st]) # tl (bp @ [length st])"
    by (cases bp) simp_all
  have bt: "backtrack (Suc 0) (s'\<lparr>pending_pop := False, z3_scopes := sc\<rparr>) =
          (Inr (), s'\<lparr>pending_pop := False, z3_scopes := sc, backtrack_points := bp,
                        assertion_stack := st\<rparr>)"
    using assms by (cases bp) simp_all
  show ?thesis
    using assms bt
    by (simp add: clear_pending_pop_def pop_after_clear_def z3_pop_def)
qed

text \<open>
  Take a call of \<open>solve\<close> whose assumptions contain at least one composite formula
  and whose conjunction of composite assumptions is Boolean and converts, \<open>s1\<close> being
  the session once a pop pending at the call has been discharged (\<open>s1\<close> is the
  session of the call when none is pending). The call pushes exactly one scope, which
  holds the conjunction of the composite assumptions and nothing else, and marks a
  deferred pop. The next mutating call (\<open>push\<close>, \<open>pop\<close>, \<open>add_assertion\<close>,
  \<open>solve\<close>) first discharges it, and so runs on a session whose engine stack,
  assertion stack and backtrack points are those of \<open>s1\<close>.
\<close>

theorem solve_composite_scope_is_transparent:
  assumes clear: "clear_pending_pop s = (Inr (), s1)"
      and part: "partition_assumptions env ass [] [] = Inr (lits, other)"
      and comp: "other \<noteq> []"
      and bool: "stc_get_type env (FNode AND other []) = BOOL"
      and conv: "convert (stc_get_type env) (FNode AND other []) = Inr term"
  shows "\<exists>s' s''. s' = snd (solve eng env (Some ass) s) \<and>
           z3_scopes s' = [Asserted term] # z3_scopes s1 \<and> z3_base s' = z3_base s1 \<and>
           assertion_stack s' = assertion_stack s1 @ [Plain (FNode AND other [])] \<and>
           pending_pop s' \<and>
           clear_pending_pop s' = (Inr (), s'') \<and> \<not> pending_pop s'' \<and>
           z3_scopes s'' = z3_scopes s1 \<and> z3_base s'' = z3_base s1 \<and>
           assertion_stack s'' = assertion_stack s1 \<and>
           backtrack_points s'' = backtrack_points s1 \<and>
           (\<forall>n. solver_push n s' = solver_push n s'') \<and>
           (\<forall>n. solver_pop n s' = solver_pop n s'') \<and>
           (\<forall>g nm. add_assertion env g nm s' = add_assertion env g nm s'') \<and>
           (\<forall>a. solve eng env a s' = solve eng env a s'') \<and>
           (\<not> pending_pop s \<longrightarrow> s1 = s)"
proof -
  have np: "\<not> pending_pop s1" using clear by (rule clear_pending_pop_not_pending)
  let ?sc = "s1\<lparr>z3_scopes := [Asserted term] # z3_scopes s1,
                 backtrack_points := backtrack_points s1 @ [length (assertion_stack s1)],
                 assertion_stack := assertion_stack s1 @ [Plain (FNode AND other [])],
                 last_command := Some ''assert'',
                 pending_pop := True\<rparr>"
  have scope: "scope_assumptions env other s1 = (Inr (), ?sc)"
    using np comp bool conv by (rule scope_assumptions_composite)
  have inner: "solve_inner eng env (Some ass) s =
                 (check_answer (z3_check eng (z3_frames ?sc) lits), ?sc)"
    using clear part scope by (simp add: solve_inner_def solve_body_def)
  define s' where "s' = snd (solve eng env (Some ass) s)"
  have fields: "z3_scopes s' = [Asserted term] # z3_scopes s1 \<and> z3_base s' = z3_base s1 \<and>
      assertion_stack s' = assertion_stack s1 @ [Plain (FNode AND other [])] \<and>
      backtrack_points s' = backtrack_points s1 @ [length (assertion_stack s1)] \<and>
      pending_pop s'"
    unfolding s'_def
    by (cases "check_answer (z3_check eng (z3_frames ?sc) lits)")
       (simp_all add: solve_def inner)
  define s'' where "s'' = s'\<lparr>pending_pop := False, z3_scopes := z3_scopes s1,
       backtrack_points := backtrack_points s1, assertion_stack := assertion_stack s1,
       last_command := Some ''pop''\<rparr>"
  have dis: "clear_pending_pop s' = (Inr (), s'')"
    unfolding s''_def using fields by (intro discharge_scope) simp_all
  have idle: "clear_pending_pop s'' = (Inr (), s'')"
    by (rule clear_pending_pop_idle) (simp add: s''_def)
  have push: "solver_push n s' = solver_push n s''" for n
    by (simp add: solver_push_def dis idle)
  have pop: "solver_pop n s' = solver_pop n s''" for n
    by (simp add: solver_pop_def dis idle)
  have add: "add_assertion env g nm s' = add_assertion env g nm s''" for g nm
    by (simp add: add_assertion_def add_assertion_inner_def dis idle)
  have slv: "solve eng env a s' = solve eng env a s''" for a
    by (simp add: solve_def solve_inner_def dis idle)
  have same: "\<not> pending_pop s \<longrightarrow> s1 = s"
    using clear by (auto simp: clear_pending_pop_def)
  have "z3_scopes s'' = z3_scopes s1 \<and> z3_base s'' = z3_base s1 \<and>
        assertion_stack s'' = assertion_stack s1 \<and> backtrack_points s'' = backtrack_points s1 \<and>
        \<not> pending_pop s''"
    using fields by (simp add: s''_def)
  with fields dis push pop add slv same s'_def show ?thesis by blast
qed

theorem solve_composite_scope_is_transparent_witness:
  "z3_scopes (snd (solve (example_engine sat) example_env
                     (Some [FNode OR [FSymbol ''a'' BOOL, FSymbol ''b'' BOOL] []])
                     (new_solver None []))) =
     [[Asserted (Z3_mk_and [Z3_mk_or [Z3_mk_const ''a'' Z3_BOOL_SORT,
                                       Z3_mk_const ''b'' Z3_BOOL_SORT]])]] \<and>
   z3_scopes (snd (clear_pending_pop (snd (solve (example_engine sat) example_env
                     (Some [FNode OR [FSymbol ''a'' BOOL, FSymbol ''b'' BOOL] []])
                     (new_solver None []))))) = [] \<and>
   assertion_stack (snd (clear_pending_pop (snd (solve (example_engine sat) example_env
                     (Some [FNode OR [FSymbol ''a'' BOOL, FSymbol ''b'' BOOL] []])
                     (new_solver None []))))) = []"
proof -
  let ?s = "new_solver None []"
  let ?c = "FNode OR [FSymbol ''a'' BOOL, FSymbol ''b'' BOOL] []"
  let ?t = "Z3_mk_and [Z3_mk_or [Z3_mk_const ''a'' Z3_BOOL_SORT, Z3_mk_const ''b'' Z3_BOOL_SORT]]"
  have c: "clear_pending_pop ?s = (Inr (), ?s)"
    by (simp add: clear_pending_pop_def new_solver_def)
  have p: "partition_assumptions example_env [?c] [] [] = Inr ([], [?c])"
    by (simp add: is_literal_def is_bool_symbol_def)
  have ne: "[?c] \<noteq> []" by simp
  have b: "stc_get_type example_env (FNode AND [?c] []) = BOOL"
    by (simp add: example_env_def node_type_def)
  have cv: "convert (stc_get_type example_env) (FNode AND [?c] []) = Inr ?t"
    by (simp add: convert_def walk_op_def walk_nary_def)
  have base: "z3_scopes ?s = [] \<and> assertion_stack ?s = []"
    by (simp add: new_solver_def)
  from solve_composite_scope_is_transparent [OF c p ne b cv, of "example_engine sat"]
  obtain s' s'' where "s' = snd (solve (example_engine sat) example_env (Some [?c]) ?s)"
    and "z3_scopes s' = [Asserted ?t] # z3_scopes ?s"
    and "clear_pending_pop s' = (Inr (), s'')"
    and "z3_scopes s'' = z3_scopes ?s" and "assertion_stack s'' = assertion_stack ?s"
    by blast
  with base show ?thesis by simp
qed

subsection \<open>Constants that are not in the symbol table\<close>

lemma is_const_facts:
  "is_const expr \<Longrightarrow> is_expr expr \<and> \<not> is_quantifier expr \<and> children expr = []"
  by (cases expr) simp_all

lemma back_single_term_constant:
  assumes const: "is_const expr"
      and kind: "decl_kind expr = Inr kind" and table: "back_fun stc kind = None"
      and lit: "\<not> is_rational_value expr" "\<not> is_int_value expr" "\<not> is_bv_value expr"
               "\<not> is_as_array expr" "\<not> is_algebraic_value expr"
  shows "back_single_term bk stc expr [] model st =
           (case map_of (symbols st) (z3_name expr) of
              Some tp \<Rightarrow> Some (Inr (FSymbol (z3_name expr) tp), st, [])
            | None \<Rightarrow>
                (case z3_to_type (sort_of expr) of
                   Inl err \<Rightarrow> Some (Inl err, st, [])
                 | Inr ty \<Rightarrow>
                     Some (Inr (FSymbol (z3_name expr) ty),
                           st\<lparr>symbols := symbols st @ [(z3_name expr, ty)]\<rparr>, [])))"
  using is_const_facts [OF const] const kind table lit
  by (simp add: back_single_term_def nary_ok_def get_symbol_def Symbol_def
           split: option.splits sum.splits)

lemma back_constant_steps:
  assumes const: "is_const expr"
      and fresh_key: "back_memoization st (expr, model) = None"
      and single: "back_single_term (\<lambda>e md s. back_result e md (back_loop (Suc n) stc md [e] s))
                     stc expr [] model
                     (st\<lparr>back_memoization := (back_memoization st)((expr, model) \<mapsto> None)\<rparr>) =
                   Some (r, st1, tr)"
  shows "z3_back (Suc (Suc (Suc n))) stc expr model st =
           (case r of
              Inl err \<Rightarrow> Some (Inl err, st1, (expr, model) # tr)
            | Inr res \<Rightarrow>
                Some (Inr res,
                      st1\<lparr>back_memoization := (back_memoization st1)((expr, model) \<mapsto> Some res)\<rparr>,
                      (expr, model) # tr))"
  using is_const_facts [OF const] fresh_key single
  by (cases r) (simp_all add: z3_back_def back_result_def Let_def)

lemma z3_to_type_not_undefined: "z3_to_type s \<noteq> Inl (UndefinedSymbolError name)"
  by (induction s) (auto split: sum.splits)

text \<open>
  Claim C7, as amended. Take a native constant term that the dispatch table does not
  handle (so not a Boolean literal) and that is not a rational, integer, bitvector or
  algebraic literal and not an as-array term, lifted outside of any model context for
  the first time. If the symbol table holds a symbol of the term's name, that symbol
  is returned and the table is unchanged. If it holds none and the sort of the native
  term is one that the converter maps to a type, a new symbol of that name and type
  is added to the table and returned. If it holds none and the converter has no type
  for the sort, the error of the sort conversion is raised and no symbol is created.
  In no case does the lookup failure (\<^verbatim>\<open>UndefinedSymbolError\<close>) reach the caller.
\<close>

theorem back_constant_symbol_fallback:
  assumes const: "is_const expr"
      and kind: "decl_kind expr = Inr kind" and table: "back_fun stc kind = None"
      and lit: "\<not> is_rational_value expr" "\<not> is_int_value expr" "\<not> is_bv_value expr"
               "\<not> is_as_array expr" "\<not> is_algebraic_value expr"
      and fresh_key: "back_memoization st (expr, None) = None"
  shows "(\<forall>tp. map_of (symbols st) (z3_name expr) = Some tp \<longrightarrow>
            (\<exists>st'. z3_back (Suc (Suc (Suc n))) stc expr None st =
                      Some (Inr (FSymbol (z3_name expr) tp), st', [(expr, None)]) \<and>
                    symbols st' = symbols st)) \<and>
         (\<forall>ty. map_of (symbols st) (z3_name expr) = None \<and>
               z3_to_type (sort_of expr) = Inr ty \<longrightarrow>
            (\<exists>st'. z3_back (Suc (Suc (Suc n))) stc expr None st =
                      Some (Inr (FSymbol (z3_name expr) ty), st', [(expr, None)]) \<and>
                    symbols st' = symbols st @ [(z3_name expr, ty)])) \<and>
         (\<forall>err. map_of (symbols st) (z3_name expr) = None \<and>
               z3_to_type (sort_of expr) = Inl err \<longrightarrow>
            (\<exists>st'. z3_back (Suc (Suc (Suc n))) stc expr None st =
                      Some (Inl err, st', [(expr, None)]) \<and>
                    symbols st' = symbols st)) \<and>
         (\<forall>r st' tr name. z3_back (Suc (Suc (Suc n))) stc expr None st = Some (r, st', tr) \<longrightarrow>
            r \<noteq> Inl (UndefinedSymbolError name))"
proof -
  let ?st0 = "st\<lparr>back_memoization := (back_memoization st)((expr, None) \<mapsto> None)\<rparr>"
  let ?bk = "\<lambda>e md s. back_result e md (back_loop (Suc n) stc md [e] s)"
  note single = back_single_term_constant [OF const kind table lit, of ?bk None ?st0]
  show ?thesis
  proof (cases "map_of (symbols st) (z3_name expr)")
    case (Some tp)
    with single have "back_single_term ?bk stc expr [] None ?st0 =
        Some (Inr (FSymbol (z3_name expr) tp), ?st0, [])" by simp
    from back_constant_steps [OF const fresh_key this] Some show ?thesis by simp
  next
    case None
    show ?thesis
    proof (cases "z3_to_type (sort_of expr)")
      case (Inl err)
      with single None have "back_single_term ?bk stc expr [] None ?st0 =
          Some (Inl err, ?st0, [])" by simp
      from back_constant_steps [OF const fresh_key this]
      have res: "z3_back (Suc (Suc (Suc n))) stc expr None st = Some (Inl err, ?st0, [(expr, None)])"
        by simp
      have "err \<noteq> UndefinedSymbolError name" for name
        using Inl z3_to_type_not_undefined [of "sort_of expr" name] by auto
      with res None Inl show ?thesis by simp
    next
      case (Inr ty)
      with single None have "back_single_term ?bk stc expr [] None ?st0 =
          Some (Inr (FSymbol (z3_name expr) ty),
                ?st0\<lparr>symbols := symbols ?st0 @ [(z3_name expr, ty)]\<rparr>, [])" by simp
      from back_constant_steps [OF const fresh_key this] None Inr show ?thesis by simp
    qed
  qed
qed

text \<open>
  The claim as stated promises a new symbol whenever the table holds none. A constant
  of a sort that \<^verbatim>\<open>_z3_to_type\<close> does not know meets every condition of the claim, and
  lifting it raises \<^verbatim>\<open>NotImplementedError\<close> and leaves the symbol table empty.
\<close>

theorem back_constant_unknown_sort_counterexample:
  "is_const (Z3_mk_const ''k'' (Z3_UNKNOWN_SORT ''FloatingPoint'')) \<and>
   \<not> is_rational_value (Z3_mk_const ''k'' (Z3_UNKNOWN_SORT ''FloatingPoint'')) \<and>
   \<not> is_int_value (Z3_mk_const ''k'' (Z3_UNKNOWN_SORT ''FloatingPoint'')) \<and>
   \<not> is_bv_value (Z3_mk_const ''k'' (Z3_UNKNOWN_SORT ''FloatingPoint'')) \<and>
   \<not> is_algebraic_value (Z3_mk_const ''k'' (Z3_UNKNOWN_SORT ''FloatingPoint'')) \<and>
   \<not> is_as_array (Z3_mk_const ''k'' (Z3_UNKNOWN_SORT ''FloatingPoint'')) \<and>
   decl_kind (Z3_mk_const ''k'' (Z3_UNKNOWN_SORT ''FloatingPoint'')) = Inr Z3_OP_UNINTERPRETED \<and>
   map_option (\<lambda>r. (fst r, symbols (fst (snd r))))
     (z3_back 3 get_type (Z3_mk_const ''k'' (Z3_UNKNOWN_SORT ''FloatingPoint'')) None
        (new_converter [])) =
     Some (Inl NotImplementedError, [])"
  by code_simp

theorem back_constant_symbol_fallback_witness:
  "(\<exists>st'. z3_back 3 get_type (Z3_mk_const ''k'' Z3_INT_SORT) None (new_converter [(''k'', INT_TYPE)]) =
            Some (Inr (FSymbol ''k'' INT_TYPE), st', [(Z3_mk_const ''k'' Z3_INT_SORT, None)]) \<and>
          symbols st' = [(''k'', INT_TYPE)]) \<and>
   (\<exists>st'. z3_back 3 get_type (Z3_mk_const ''k'' Z3_INT_SORT) None (new_converter []) =
            Some (Inr (FSymbol ''k'' INT_TYPE), st', [(Z3_mk_const ''k'' Z3_INT_SORT, None)]) \<and>
          symbols st' = [(''k'', INT_TYPE)])"
proof -
  let ?e = "Z3_mk_const ''k'' Z3_INT_SORT"
  have c: "is_const ?e" and k: "decl_kind ?e = Inr Z3_OP_UNINTERPRETED"
    and t: "back_fun get_type Z3_OP_UNINTERPRETED = None"
    and l: "\<not> is_rational_value ?e" "\<not> is_int_value ?e" "\<not> is_bv_value ?e"
           "\<not> is_as_array ?e" "\<not> is_algebraic_value ?e"
    by (simp_all add: Z3_mk_const_def back_fun_def is_as_array_def is_app_of_def)
  have f1: "back_memoization (new_converter [(''k'', INT_TYPE)]) (?e, None) = None"
    and f2: "back_memoization (new_converter []) (?e, None) = None"
    by (simp_all add: new_converter_def)
  have n: "z3_name ?e = ''k''" and so: "z3_to_type (sort_of ?e) = Inr INT_TYPE"
    by (simp_all add: Z3_mk_const_def)
  have three: "(3::nat) = Suc (Suc (Suc 0))" by simp
  from back_constant_symbol_fallback [OF c k t l f1, of 0]
       back_constant_symbol_fallback [OF c k t l f2, of 0]
  show ?thesis
    unfolding three n so by (simp add: new_converter_def)
qed

text \<open>
  Claim C5 says that every call of \<open>solve\<close> with a composite assumption pushes one
  scope, asserts the conjunction in it and marks a deferred pop, so that the scope is
  gone when the next mutating call runs. \<^verbatim>\<open>_solve\<close> pushes the scope first, asserts
  second and sets \<^verbatim>\<open>pending_pop\<close> last. When the assertion raises, as it does for a
  Boolean formula over string symbols, which the converter does not support, the
  scope has been pushed and the mark is never set: the call leaves one scope and one
  backtrack point behind, no later call discharges them, and the next assertion goes
  into the scope that was left behind.
\<close>

theorem solve_failed_assumption_leaks_scope:
  "z3_scopes (new_solver None []) = [] \<and>
   backtrack_points (new_solver None []) = [] \<and>
   \<not> is_literal (FNode EQUALS [FSymbol ''s'' STRING, FSymbol ''t'' STRING] []) \<and>
   stc_get_type example_env
     (FNode AND [FNode EQUALS [FSymbol ''s'' STRING, FSymbol ''t'' STRING] []] []) = BOOL \<and>
   fst (solve (example_engine sat) example_env
          (Some [FNode EQUALS [FSymbol ''s'' STRING, FSymbol ''t'' STRING] []])
          (new_solver None [])) =
     Inl (ConvertExpressionError Unsupported_string_symbol (Formula_expr (FSymbol ''s'' STRING))) \<and>
   z3_scopes (snd (solve (example_engine sat) example_env
                     (Some [FNode EQUALS [FSymbol ''s'' STRING, FSymbol ''t'' STRING] []])
                     (new_solver None []))) = [[]] \<and>
   backtrack_points (snd (solve (example_engine sat) example_env
                     (Some [FNode EQUALS [FSymbol ''s'' STRING, FSymbol ''t'' STRING] []])
                     (new_solver None []))) = [0] \<and>
   \<not> pending_pop (snd (solve (example_engine sat) example_env
                     (Some [FNode EQUALS [FSymbol ''s'' STRING, FSymbol ''t'' STRING] []])
                     (new_solver None []))) \<and>
   z3_scopes (snd (add_assertion example_env (FSymbol ''a'' BOOL) None
                (snd (solve (example_engine sat) example_env
                        (Some [FNode EQUALS [FSymbol ''s'' STRING, FSymbol ''t'' STRING] []])
                        (new_solver None []))))) =
     [[Asserted (Z3_mk_const ''a'' Z3_BOOL_SORT)]] \<and>
   z3_base (snd (add_assertion example_env (FSymbol ''a'' BOOL) None
                (snd (solve (example_engine sat) example_env
                        (Some [FNode EQUALS [FSymbol ''s'' STRING, FSymbol ''t'' STRING] []])
                        (new_solver None []))))) = []"
  by (simp add: solve_def solve_inner_def solve_body_def scope_assumptions_def
        clear_pending_pop_def new_solver_def is_literal_def is_bool_symbol_def
        solver_push_def z3_push_def Let_def add_assertion_def add_assertion_inner_def
        add_assertion_body_def assert_is_boolean_def example_env_def node_type_def
        convert_def z3_add_def record_named_def)

subsection \<open>Round trips\<close>

text \<open>
  Claim C1 says that forward conversion followed by backward conversion yields a
  formula equivalent to the original, for every formula of the supported grammar,
  uninterpreted functions included. On the application of a function of three
  arguments the round trip yields no formula: \<^verbatim>\<open>_back_single_term\<close> fails its
  assertion on terms with more than two arguments, which lets through conjunctions,
  disjunctions, sums, products, if-then-else and store, and not applications of
  uninterpreted functions.
\<close>

theorem round_trip_ternary_application_fails:
  "round_trip 20 get_type example_symbols example_application = Some (Inl AssertionError)"
  by code_simp

text \<open>The application of a function of two arguments comes back as it was.\<close>

lemma round_trip_binary_application:
  "round_trip 20 get_type
     [(''g'', FunctionType INT_TYPE [INT_TYPE, INT_TYPE]), (''x'', INT_TYPE), (''y'', INT_TYPE)]
     (FFunction (FSymbol ''g'' (FunctionType INT_TYPE [INT_TYPE, INT_TYPE]))
        [FSymbol ''x'' INT_TYPE, FSymbol ''y'' INT_TYPE]) =
   Some (Inr (FFunction (FSymbol ''g'' (FunctionType INT_TYPE [INT_TYPE, INT_TYPE]))
                [FSymbol ''x'' INT_TYPE, FSymbol ''y'' INT_TYPE]))"
  by code_simp

subsection \<open>Values under a model\<close>

text \<open>
  Claim C10. \<open>get_value(t)\<close> converts \<open>t\<close>, evaluates the native term against the
  current model with model completion enabled, and lifts the result back under the
  model. When the lifted result is not a constant, the simplified form of it is
  returned; a constant result is returned as it is.
\<close>

theorem get_value_simplifies_non_constants:
  assumes conv: "convert (stc_get_type env) item = Inr titem"
      and model: "z3_model_interps eng (z3_frames s) = Some interps"
      and lifted: "z3_back fuel (stc_get_type env)
                     (z3_eval eng (Z3Model (model_count s) interps) titem True)
                     (Some (Z3Model (Suc (model_count s)) interps)) (conv s) =
                   Some (Inr res, c3, tr)"
  shows "\<exists>s'. get_value fuel eng env item s =
                 Some (Inr (if is_constant res then res else simplify env res), s')"
  using conv model lifted
  by (simp add: get_value_def z3_model_of_def z3_frames_def Let_def)

theorem get_value_simplifies_non_constants_witness:
  "(\<exists>s'. get_value 3 ((example_engine sat)\<lparr>z3_eval := (\<lambda>m t c. Z3_mk_numeral 1 1 Z3_INT_SORT)\<rparr>)
             (example_env\<lparr>simplify := (\<lambda>f. FInt 7)\<rparr>) (FSymbol ''x'' INT_TYPE)
             (new_solver None [(''x'', INT_TYPE)]) = Some (Inr (FInt 1), s')) \<and>
   (\<exists>s'. get_value 3 (example_engine sat)
             (example_env\<lparr>simplify := (\<lambda>f. FInt 7)\<rparr>) (FSymbol ''x'' INT_TYPE)
             (new_solver None [(''x'', INT_TYPE)]) = Some (Inr (FInt 7), s'))"
proof -
  let ?env = "example_env\<lparr>simplify := (\<lambda>f. FInt 7)\<rparr>"
  let ?eng1 = "(example_engine sat)\<lparr>z3_eval := (\<lambda>m t c. Z3_mk_numeral 1 1 Z3_INT_SORT)\<rparr>"
  let ?s = "new_solver None [(''x'', INT_TYPE)]"
  have three: "(3::nat) = Suc (Suc (Suc 0))" by simp
  have cv: "convert (stc_get_type ?env) (FSymbol ''x'' INT_TYPE) = Inr (Z3_mk_const ''x'' Z3_INT_SORT)"
    by (simp add: convert_def)
  have m1: "z3_model_interps ?eng1 (z3_frames ?s) = Some []"
    and m2: "z3_model_interps (example_engine sat) (z3_frames ?s) = Some []"
    by (simp_all add: example_engine_def)
  have "\<exists>c3 tr. z3_back 3 (stc_get_type ?env)
            (z3_eval ?eng1 (Z3Model (model_count ?s) []) (Z3_mk_const ''x'' Z3_INT_SORT) True)
            (Some (Z3Model (Suc (model_count ?s)) [])) (conv ?s) = Some (Inr (FInt 1), c3, tr)"
    unfolding three
    by (simp add: example_engine_def z3_back_def back_result_def back_single_term_def Let_def
          Z3_mk_numeral_def nary_ok_def back_fun_def new_solver_def new_converter_def)
  then obtain c3 tr where l1: "z3_back 3 (stc_get_type ?env)
            (z3_eval ?eng1 (Z3Model (model_count ?s) []) (Z3_mk_const ''x'' Z3_INT_SORT) True)
            (Some (Z3Model (Suc (model_count ?s)) [])) (conv ?s) = Some (Inr (FInt 1), c3, tr)"
    by blast
  have "\<exists>c3 tr. z3_back 3 (stc_get_type ?env)
            (z3_eval (example_engine sat) (Z3Model (model_count ?s) [])
               (Z3_mk_const ''x'' Z3_INT_SORT) True)
            (Some (Z3Model (Suc (model_count ?s)) [])) (conv ?s) =
          Some (Inr (FSymbol ''x'' INT_TYPE), c3, tr)"
    unfolding three
    by (simp add: example_engine_def z3_back_def back_result_def back_single_term_def Let_def
          Z3_mk_const_def nary_ok_def back_fun_def new_solver_def new_converter_def
          is_as_array_def is_app_of_def get_symbol_def)
  then obtain c4 tr4 where l2: "z3_back 3 (stc_get_type ?env)
            (z3_eval (example_engine sat) (Z3Model (model_count ?s) [])
               (Z3_mk_const ''x'' Z3_INT_SORT) True)
            (Some (Z3Model (Suc (model_count ?s)) [])) (conv ?s) =
          Some (Inr (FSymbol ''x'' INT_TYPE), c4, tr4)"
    by blast
  from get_value_simplifies_non_constants [OF cv m1 l1]
       get_value_simplifies_non_constants [OF cv m2 l2]
  show ?thesis by simp
qed

subsection \<open>Failures of lifting after quantifier elimination\<close>




subsection \<open>Named unsat cores\<close>









subsection \<open>The memo after a failed conversion\<close>


text \<open>
  Where no call has raised before, the memo behaves as a cache. In a run of the loop
  without a model, \<^verbatim>\<open>_back_single_term\<close> is called on pairwise different keys, on
  none that held a formula when the run began, every formula that the memo held is
  still there at the end, and after a run that returns every key the run computed
  holds a formula.
\<close>

lemma back_single_term_without_model:
  assumes "back_single_term bk stc expr args None st = Some (r, st1, tr1)"
  shows "tr1 = [] \<and> back_memoization st1 = back_memoization st"
  using assms
  by (auto simp: back_single_term_def Symbol_def get_symbol_def
           split: if_splits sum.splits option.splits prod.splits error.splits)

lemma back_loop_computes_once:
  "back_loop n stc None stack st = Some (r, st', tr) \<Longrightarrow>
     distinct tr \<and>
     (\<forall>k \<in> set tr. \<forall>v. back_memoization st k \<noteq> Some (Some v)) \<and>
     (\<forall>k v. back_memoization st k = Some (Some v) \<longrightarrow> back_memoization st' k = Some (Some v)) \<and>
     (r = Inr () \<longrightarrow> (\<forall>k \<in> set tr. \<exists>v. back_memoization st' k = Some (Some v)))"
proof (induction n arbitrary: stack st r st' tr)
  case 0
  then show ?case by simp
next
  case (Suc n)
  show ?case
  proof (cases stack)
    case Nil
    with Suc.prems show ?thesis by simp
  next
    case (Cons current rest)
    let ?key = "(current, None :: z3_model option)"
    show ?thesis
    proof (cases "back_memoization st ?key")
      case None
      let ?st0 = "st\<lparr>back_memoization := (back_memoization st)(?key \<mapsto> None)\<rparr>"
      show ?thesis
      proof (cases "is_expr current")
        case True
        with Suc.prems Cons None have
          run: "back_loop n stc None (rev (children current) @ current # rest) ?st0 = Some (r, st', tr)"
          by (simp add: Let_def)
        note ih = Suc.IH [OF run]
        have "\<forall>k \<in> set tr. \<forall>v. back_memoization st k \<noteq> Some (Some v)"
        proof (intro ballI allI)
          fix k v
          assume "k \<in> set tr"
          with ih have "back_memoization ?st0 k \<noteq> Some (Some v)" by blast
          then show "back_memoization st k \<noteq> Some (Some v)"
            using None by (cases "k = ?key") auto
        qed
        moreover have "\<forall>k v. back_memoization st k = Some (Some v) \<longrightarrow>
                         back_memoization st' k = Some (Some v)"
        proof (intro allI impI)
          fix k v
          assume a: "back_memoization st k = Some (Some v)"
          with None have "k \<noteq> ?key" by auto
          with a have "back_memoization ?st0 k = Some (Some v)" by simp
          with ih show "back_memoization st' k = Some (Some v)" by blast
        qed
        ultimately show ?thesis using ih by blast
      next
        case False
        with Suc.prems Cons None have "tr = []" and st': "st' = ?st0"
          by (auto simp: Let_def)
        have "\<forall>k v. back_memoization st k = Some (Some v) \<longrightarrow>
                back_memoization st' k = Some (Some v)"
        proof (intro allI impI)
          fix k v
          assume a: "back_memoization st k = Some (Some v)"
          with None have "k \<noteq> ?key" by auto
          with a st' show "back_memoization st' k = Some (Some v)" by simp
        qed
        with \<open>tr = []\<close> show ?thesis by simp
      qed
    next
      case (Some entry)
      show ?thesis
      proof (cases entry)
        case (Some v)
        with Suc.prems Cons \<open>back_memoization st ?key = Some entry\<close>
        have "back_loop n stc None rest st = Some (r, st', tr)" by (simp add: Let_def)
        from Suc.IH [OF this] show ?thesis .
      next
        case None
        note pending = \<open>back_memoization st ?key = Some entry\<close> [unfolded None]
        show ?thesis
        proof (cases "read_args (back_memoization st) None (children current)")
          case (Inl err)
          with Suc.prems Cons pending show ?thesis by (auto simp: Let_def)
        next
          case (Inr args)
          let ?bk = "\<lambda>e md s. back_result e md (back_loop n stc md [e] s)"
          show ?thesis
          proof (cases "back_single_term ?bk stc current args None st")
            case None
            with Suc.prems Cons pending Inr show ?thesis by (simp add: Let_def)
          next
            case (Some out)
            obtain r1 st1 tr1 where out: "out = (r1, st1, tr1)" by (cases out)
            from back_single_term_without_model [OF Some [unfolded out]]
            have tr1: "tr1 = []" and memo1: "back_memoization st1 = back_memoization st"
              by simp_all
            show ?thesis
            proof (cases r1)
              case (Inl err)
              with Suc.prems Cons pending Inr Some out tr1 memo1
              have "r = Inl err" "st' = st1" "tr = [?key]" by (auto simp: Let_def)
              with memo1 pending show ?thesis by auto
            next
              case r1: (Inr res)
              let ?st2 = "st1\<lparr>back_memoization := (back_memoization st1)(?key \<mapsto> Some res)\<rparr>"
              from Suc.prems Cons pending Inr Some out r1 tr1
              obtain tr2 where run: "back_loop n stc None rest ?st2 = Some (r, st', tr2)"
                and tr: "tr = ?key # tr2"
                by (auto simp: Let_def split: option.splits prod.splits)
              note ih = Suc.IH [OF run]
              have resolved: "back_memoization ?st2 ?key = Some (Some res)" by simp
              have notin: "?key \<notin> set tr2" using ih resolved by blast
              have "distinct tr" using tr notin ih by simp
              moreover have "\<forall>k \<in> set tr. \<forall>v. back_memoization st k \<noteq> Some (Some v)"
              proof (intro ballI allI)
                fix k v
                assume "k \<in> set tr"
                then consider "k = ?key" | "k \<in> set tr2" using tr by auto
                then show "back_memoization st k \<noteq> Some (Some v)"
                proof cases
                  case 1
                  with pending show ?thesis by simp
                next
                  case 2
                  with ih have "back_memoization ?st2 k \<noteq> Some (Some v)" by blast
                  moreover from 2 notin have "k \<noteq> ?key" by blast
                  ultimately show ?thesis using memo1 by simp
                qed
              qed
              moreover have "\<forall>k v. back_memoization st k = Some (Some v) \<longrightarrow>
                               back_memoization st' k = Some (Some v)"
              proof (intro allI impI)
                fix k v
                assume a: "back_memoization st k = Some (Some v)"
                with pending have "k \<noteq> ?key" by auto
                with a memo1 have "back_memoization ?st2 k = Some (Some v)" by simp
                with ih show "back_memoization st' k = Some (Some v)" by blast
              qed
              moreover have "r = Inr () \<longrightarrow>
                  (\<forall>k \<in> set tr. \<exists>v. back_memoization st' k = Some (Some v))"
                using tr ih resolved by auto
              ultimately show ?thesis by blast
            qed
          qed
        qed
      qed
    qed
  qed
qed

end
